theory Spec2Isabelle
  imports Complex_Main "HOL-Library.Char_ord" "HOL-Library.List_Lexorder"
begin

section \<open>Data model (types/index.ts)\<close>

text \<open>
  A TypeScript \<open>number\<close> is an IEEE 754 double. The finite doubles are rationals, and
  a \<open>number\<close> of the model is a rational; where the program adds or multiplies, the
  model rounds the exact result to the nearest double (\<open>binary64\<close>, below). The
  infinities and NaN are not values of the model, so a result beyond the largest double
  is outside it. Strings are character lists. The field \<open>id\<close> of a product is written
  \<open>id'\<close>, and the parameters \<open>product\<close>, \<open>quantity\<close> and \<open>productId\<close> of the cart
  operations are written \<open>p\<close>, \<open>q\<close> and \<open>pid\<close>, their names being those of the fields of
  a line item.
\<close>

type_synonym number = rat

record Product =
  id' :: string
  name :: string
  description :: string
  price :: number
  imageURL :: string
  stock :: number
  category :: string
  createdAt :: string
  updatedAt :: string

record CartItem =
  productId :: string
  quantity :: number
  product :: Product

subsection \<open>Double precision\<close>

text \<open>
  \<open>binary64\<close> rounds a rational to the nearest double, ties to the even significand:
  \<open>exponent2 x\<close> is the integer \<open>e\<close> with \<open>2 ^ e \<le> x < 2 ^ (e + 1)\<close> for a positive
  \<open>x\<close>, a double of that magnitude is a multiple of \<open>2 ^ (e - 52)\<close>, and below
  \<open>2 ^ (- 1022)\<close> the spacing stays that of the subnormal numbers. \<open>MAX_VALUE\<close> is the
  largest double; the rounding of the model is that of the program for every result
  whose magnitude does not exceed it.
\<close>

function exponent_up :: "rat \<Rightarrow> int" where
  "exponent_up x = (if 2 \<le> x then 1 + exponent_up (x / 2) else 0)"
  by pat_completeness auto
termination
proof (relation "measure (\<lambda>x. nat \<lfloor>x\<rfloor>)")
  show "wf (measure (\<lambda>x :: rat. nat \<lfloor>x\<rfloor>))" by simp
next
  fix x :: rat
  assume x: "2 \<le> x"
  then have two: "2 \<le> \<lfloor>x\<rfloor>"
    by (simp add: le_floor_iff)
  have "x < of_int \<lfloor>x\<rfloor> + 1"
    by linarith
  moreover have "(of_int \<lfloor>x\<rfloor> :: rat) + 1 \<le> 2 * of_int \<lfloor>x\<rfloor>"
    using two by linarith
  ultimately have "x / 2 < of_int \<lfloor>x\<rfloor>"
    by linarith
  then have "\<lfloor>x / 2\<rfloor> < \<lfloor>x\<rfloor>"
    by (simp add: floor_less_iff)
  with two show "(x / 2, x) \<in> measure (\<lambda>x. nat \<lfloor>x\<rfloor>)"
    by simp
qed

function exponent_down :: "rat \<Rightarrow> int" where
  "exponent_down x = (if 0 < x \<and> x < 1 then exponent_down (x * 2) - 1 else 0)"
  by pat_completeness auto
termination
proof (relation "measure (\<lambda>x. nat \<lceil>1 / x\<rceil>)")
  show "wf (measure (\<lambda>x :: rat. nat \<lceil>1 / x\<rceil>))" by simp
next
  fix x :: rat
  assume x: "0 < x \<and> x < 1"
  define n where "n = \<lceil>1 / x\<rceil>"
  from x have "1 < 1 / x" by simp
  then have two: "2 \<le> n"
    by (simp add: n_def less_ceiling_iff)
  then have "(2 :: rat) \<le> of_int n"
    using of_int_le_iff [of 2 n, where ?'a = rat] by simp
  then have "(of_int n :: rat) / 2 \<le> of_int n - 1"
    by simp
  moreover have "1 / x \<le> of_int n"
    by (simp add: n_def)
  then have "1 / (x * 2) \<le> (of_int n :: rat) / 2"
    by simp
  ultimately have "1 / (x * 2) \<le> of_int (n - 1)"
    by simp
  then have "\<lceil>1 / (x * 2)\<rceil> \<le> n - 1"
    by (rule ceiling_le)
  with two have "nat \<lceil>1 / (x * 2)\<rceil> < nat n"
    by linarith
  then show "(x * 2, x) \<in> measure (\<lambda>x. nat \<lceil>1 / x\<rceil>)"
    unfolding in_measure n_def .
qed

definition exponent2 :: "rat \<Rightarrow> int" where
  "exponent2 x = (if 1 \<le> x then exponent_up x else exponent_down x)"

definition nearest_even :: "rat \<Rightarrow> int" where
  "nearest_even x =
     (let f = \<lfloor>x\<rfloor>; d = x - of_int f
      in if d < 1 / 2 then f else if 1 / 2 < d then f + 1 else if even f then f else f + 1)"

definition binary64 :: "rat \<Rightarrow> rat" where
  "binary64 x =
     (if x = 0 then 0
      else (let e = max (exponent2 \<bar>x\<bar>) (- 1022); u = power_int 2 (e - 52)
            in of_int (nearest_even (x / u)) * u))"

definition MAX_VALUE :: number where
  "MAX_VALUE = 2 ^ 1024 - 2 ^ 971"

section \<open>The platform: JSON, AsyncStorage, the console\<close>

text \<open>
  A JSON text is modelled by the document it denotes: \<open>JSON_stringify\<close> writes a cart as
  an array of objects with the fields \<open>productId\<close>, \<open>quantity\<close> and \<open>product\<close>, the
  product itself an object with the nine fields of \<open>Product\<close>, and \<open>JSON_parse\<close> reads
  the fields back by name, in any order. A stored string is either such a text
  (\<open>JsonText\<close>) or a string that is no JSON text at all (\<open>PlainText\<close>, with its
  characters), on which \<open>JSON_parse\<close> throws. The cart of the model is typed. The
  program hydrates whatever \<open>JSON.parse\<close> returns; for a well-formed text that does not
  denote a cart, which \<open>saveCart\<close> never writes, the model has no such value and
  reports an error instead, so \<open>loadCart\<close> is that of the program on an absent key, on
  a string that is no JSON text, and on what \<open>saveCart\<close> wrote.
\<close>

datatype json =
    JNull
  | JNum number
  | JStr string
  | JArr "json list"
  | JObj "(string \<times> json) list"

datatype stored = JsonText json | PlainText string

datatype error = SyntaxError | StorageError | FirestoreError

definition product_to_json :: "Product \<Rightarrow> json" where
  "product_to_json p = JObj
     [(''id'', JStr (id' p)), (''name'', JStr (name p)),
      (''description'', JStr (description p)), (''price'', JNum (price p)),
      (''imageURL'', JStr (imageURL p)), (''stock'', JNum (stock p)),
      (''category'', JStr (category p)), (''createdAt'', JStr (createdAt p)),
      (''updatedAt'', JStr (updatedAt p))]"

definition item_to_json :: "CartItem \<Rightarrow> json" where
  "item_to_json item = JObj
     [(''productId'', JStr (productId item)), (''quantity'', JNum (quantity item)),
      (''product'', product_to_json (product item))]"

definition JSON_stringify :: "CartItem list \<Rightarrow> stored" where
  "JSON_stringify cartItems = JsonText (JArr (map item_to_json cartItems))"

fun str_field :: "(string \<times> json) list \<Rightarrow> string \<Rightarrow> string option" where
  "str_field fs k = (case map_of fs k of Some (JStr s) \<Rightarrow> Some s | _ \<Rightarrow> None)"

fun num_field :: "(string \<times> json) list \<Rightarrow> string \<Rightarrow> number option" where
  "num_field fs k = (case map_of fs k of Some (JNum n) \<Rightarrow> Some n | _ \<Rightarrow> None)"

fun product_of_json :: "json \<Rightarrow> Product option" where
  "product_of_json (JObj fs) =
     (case (str_field fs ''id'', str_field fs ''name'', str_field fs ''description'',
            num_field fs ''price'', str_field fs ''imageURL'', num_field fs ''stock'',
            str_field fs ''category'', str_field fs ''createdAt'',
            str_field fs ''updatedAt'') of
        (Some i, Some n, Some d, Some pr, Some im, Some st, Some c, Some cr, Some up) \<Rightarrow>
          Some \<lparr>id' = i, name = n, description = d, price = pr, imageURL = im,
                stock = st, category = c, createdAt = cr, updatedAt = up\<rparr>
      | _ \<Rightarrow> None)"
| "product_of_json _ = None"

fun item_of_json :: "json \<Rightarrow> CartItem option" where
  "item_of_json (JObj fs) =
     (case (str_field fs ''productId'', num_field fs ''quantity'', map_of fs ''product'') of
        (Some pid, Some q, Some pj) \<Rightarrow>
          (case product_of_json pj of
             Some p \<Rightarrow> Some \<lparr>productId = pid, quantity = q, product = p\<rparr>
           | None \<Rightarrow> None)
      | _ \<Rightarrow> None)"
| "item_of_json _ = None"

fun items_of_json :: "json list \<Rightarrow> CartItem list option" where
  "items_of_json [] = Some []"
| "items_of_json (j # js) =
     (case item_of_json j of
        None \<Rightarrow> None
      | Some item \<Rightarrow> (case items_of_json js of None \<Rightarrow> None | Some rest \<Rightarrow> Some (item # rest)))"

fun JSON_parse :: "stored \<Rightarrow> error + CartItem list" where
  "JSON_parse (JsonText (JArr js)) =
     (case items_of_json js of Some xs \<Rightarrow> Inr xs | None \<Rightarrow> Inl SyntaxError)"
| "JSON_parse _ = Inl SyntaxError"

text \<open>A string is truthy unless it is empty; no JSON text is empty.\<close>

fun truthy :: "stored \<Rightarrow> bool" where
  "truthy (JsonText j) = True"
| "truthy (PlainText s) = (s \<noteq> [])"

text \<open>
  AsyncStorage is a key-value store of strings whose operations are promises: each
  one resolves or rejects. A store with \<open>faulty\<close> set rejects every operation and
  changes nothing.
\<close>

record AsyncStorage =
  slots :: "string \<rightharpoonup> stored"
  faulty :: bool

definition AsyncStorage_getItem :: "string \<Rightarrow> AsyncStorage \<Rightarrow> error + stored option" where
  "AsyncStorage_getItem k s = (if faulty s then Inl StorageError else Inr (slots s k))"

definition AsyncStorage_setItem :: "string \<Rightarrow> stored \<Rightarrow> AsyncStorage \<Rightarrow> error + AsyncStorage" where
  "AsyncStorage_setItem k v s =
     (if faulty s then Inl StorageError else Inr (s\<lparr>slots := (slots s)(k \<mapsto> v)\<rparr>))"

definition AsyncStorage_removeItem :: "string \<Rightarrow> AsyncStorage \<Rightarrow> error + AsyncStorage" where
  "AsyncStorage_removeItem k s =
     (if faulty s then Inl StorageError else Inr (s\<lparr>slots := (slots s)(k := None)\<rparr>))"

section \<open>Cart store (contexts/CartContext.tsx)\<close>

text \<open>
  The state of a \<open>CartProvider\<close>: the \<open>items\<close> of \<open>useState\<close>, the device's storage and
  the lines written by \<open>console.error\<close>. Every operation of the provider is an
  \<open>async\<close> function; its model returns the state it leaves and the outcome of its
  promise, \<open>Resolved\<close> or \<open>Rejected\<close> with the error the caller would catch.
\<close>

record CartStore =
  items :: "CartItem list"
  storage :: AsyncStorage
  console :: "string list"

datatype outcome = Resolved | Rejected error

definition CART_STORAGE_KEY :: string where
  "CART_STORAGE_KEY = ''@cart_items''"

definition CartProvider :: "AsyncStorage \<Rightarrow> CartStore" where
  "CartProvider s = \<lparr>items = [], storage = s, console = []\<rparr>"

definition loadCart :: "CartStore \<Rightarrow> CartStore" where
  "loadCart st =
     (case AsyncStorage_getItem CART_STORAGE_KEY (storage st) of
        Inl e \<Rightarrow> st\<lparr>console := console st @ [''Error loading cart:'']\<rparr>
      | Inr None \<Rightarrow> st
      | Inr (Some savedCart) \<Rightarrow>
          (if truthy savedCart
           then (case JSON_parse savedCart of
                   Inl e \<Rightarrow> st\<lparr>console := console st @ [''Error loading cart:'']\<rparr>
                 | Inr parsed \<Rightarrow> st\<lparr>items := parsed\<rparr>)
           else st))"

definition saveCart :: "CartItem list \<Rightarrow> CartStore \<Rightarrow> CartStore" where
  "saveCart cartItems st =
     (case AsyncStorage_setItem CART_STORAGE_KEY (JSON_stringify cartItems) (storage st) of
        Inl e \<Rightarrow> st\<lparr>console := console st @ [''Error saving cart:'']\<rparr>
      | Inr s' \<Rightarrow> st\<lparr>storage := s'\<rparr>)"

text \<open>
  The three mutations hand \<open>setItems\<close> a function of the current items, which computes
  the new items and calls \<open>saveCart\<close> on them. These functions are the \<open>updater\<close>s
  below. \<open>addToCart p q st\<close>, \<open>removeFromCart pid st\<close> and \<open>updateQuantity pid q st\<close>
  give the state once React has run the updater of the call on \<open>st\<close>, as it does when
  no earlier update is waiting. Updates that wait for the next render are the subject
  of the section on scheduling.
\<close>

definition addToCart_updater :: "Product \<Rightarrow> number \<Rightarrow> CartStore \<Rightarrow> CartStore" where
  "addToCart_updater p q st =
     (let currentItems = items st in
      case find (\<lambda>item. productId item = id' p) currentItems of
        Some existingItem \<Rightarrow>
          (let updatedItems =
                 map (\<lambda>item. if productId item = id' p
                              then item\<lparr>quantity := binary64 (quantity item + q)\<rparr> else item)
                   currentItems
           in (saveCart updatedItems st)\<lparr>items := updatedItems\<rparr>)
      | None \<Rightarrow>
          (let newItems = currentItems @ [\<lparr>productId = id' p, quantity = q, product = p\<rparr>]
           in (saveCart newItems st)\<lparr>items := newItems\<rparr>))"

definition addToCart :: "Product \<Rightarrow> number \<Rightarrow> CartStore \<Rightarrow> CartStore \<times> outcome" where
  "addToCart p q st = (addToCart_updater p q st, Resolved)"

definition removeFromCart_updater :: "string \<Rightarrow> CartStore \<Rightarrow> CartStore" where
  "removeFromCart_updater pid st =
     (let updatedItems = filter (\<lambda>item. productId item \<noteq> pid) (items st)
      in (saveCart updatedItems st)\<lparr>items := updatedItems\<rparr>)"

definition removeFromCart :: "string \<Rightarrow> CartStore \<Rightarrow> CartStore \<times> outcome" where
  "removeFromCart pid st = (removeFromCart_updater pid st, Resolved)"

definition updateQuantity_updater :: "string \<Rightarrow> number \<Rightarrow> CartStore \<Rightarrow> CartStore" where
  "updateQuantity_updater pid q st =
     (let updatedItems =
            map (\<lambda>item. if productId item = pid then item\<lparr>quantity := q\<rparr> else item)
              (items st)
      in (saveCart updatedItems st)\<lparr>items := updatedItems\<rparr>)"

definition updateQuantity :: "string \<Rightarrow> number \<Rightarrow> CartStore \<Rightarrow> CartStore \<times> outcome" where
  "updateQuantity pid q st =
     (if q < 1 then removeFromCart pid st
      else (updateQuantity_updater pid q st, Resolved))"

text \<open>
  \<open>clearCart\<close> passes \<open>setItems\<close> the empty list, not a function, and awaits the
  removal of the key outside any \<open>try\<close>.
\<close>

definition clearCart :: "CartStore \<Rightarrow> CartStore \<times> outcome" where
  "clearCart st =
     (let st1 = st\<lparr>items := []\<rparr> in
      case AsyncStorage_removeItem CART_STORAGE_KEY (storage st1) of
        Inl e \<Rightarrow> (st1, Rejected e)
      | Inr s' \<Rightarrow> (st1\<lparr>storage := s'\<rparr>, Resolved))"

text \<open>The totals are folds over the items, in double precision as the program computes them.\<close>

definition totalItems :: "CartStore \<Rightarrow> number" where
  "totalItems st = foldl (\<lambda>sum item. binary64 (sum + quantity item)) 0 (items st)"

definition totalPrice :: "CartStore \<Rightarrow> number" where
  "totalPrice st =
     foldl (\<lambda>sum item. binary64 (sum + binary64 (price (product item) * quantity item))) 0
       (items st)"

text \<open>
  \<open>totalPrice_exact\<close> is the same fold without rounding. It is not what the program
  computes; it gives the value that the decimal numerals of a scenario denote, to set
  beside the doubles.
\<close>

definition totalPrice_exact :: "CartStore \<Rightarrow> number" where
  "totalPrice_exact st =
     foldl (\<lambda>sum item. sum + price (product item) * quantity item) 0 (items st)"

section \<open>Session store (AuthProvider, listed in components/ProductCard.tsx)\<close>

text \<open>
  The role state is typed \<open>'mechanic' | 'admin' | null\<close>; reading a field that a
  document does not have gives \<open>undefined\<close>, which the cast lets through. A profile
  document is read for its \<open>role\<close> field only. Firestore keeps the list of
  document reads it was asked for, and rejects every request while \<open>unreachable\<close>.
\<close>

datatype Role = mechanic | admin

datatype RoleState = RoleNull | RoleUndefined | RoleTag Role

text \<open>The session has no role when the state is \<open>null\<close> or \<open>undefined\<close>.\<close>

fun no_role :: "RoleState \<Rightarrow> bool" where
  "no_role RoleNull = True"
| "no_role RoleUndefined = True"
| "no_role (RoleTag r) = False"

record User =
  uid :: string

record UserData =
  role :: "Role option"

record Firestore =
  Users :: "string \<rightharpoonup> UserData"
  Products :: "Product list"
  unreachable :: bool
  requests :: "(string \<times> string) list"

definition getDoc_Users :: "string \<Rightarrow> Firestore \<Rightarrow> Firestore \<times> (error + UserData option)" where
  "getDoc_Users k fs =
     (fs\<lparr>requests := requests fs @ [(''Users'', k)]\<rparr>,
      if unreachable fs then Inl FirestoreError else Inr (Users fs k))"

record AuthStore =
  user :: "User option"
  userRole :: RoleState
  loading :: bool
  db :: Firestore

definition AuthProvider :: "Firestore \<Rightarrow> AuthStore" where
  "AuthProvider fs = \<lparr>user = None, userRole = RoleNull, loading = True, db = fs\<rparr>"

definition onAuthStateChanged :: "User option \<Rightarrow> AuthStore \<Rightarrow> AuthStore \<times> outcome" where
  "onAuthStateChanged u st =
     (let st1 = st\<lparr>user := u\<rparr> in
      case u of
        Some usr \<Rightarrow>
          (case getDoc_Users (uid usr) (db st1) of
             (fs', Inl e) \<Rightarrow> (st1\<lparr>db := fs'\<rparr>, Rejected e)
           | (fs', Inr userDoc) \<Rightarrow>
               (let st2 = st1\<lparr>db := fs'\<rparr>;
                    st3 = (case userDoc of
                             Some d \<Rightarrow>
                               st2\<lparr>userRole :=
                                 (case role d of Some r \<Rightarrow> RoleTag r | None \<Rightarrow> RoleUndefined)\<rparr>
                           | None \<Rightarrow> st2)
                in (st3\<lparr>loading := False\<rparr>, Resolved)))
      | None \<Rightarrow> (st1\<lparr>userRole := RoleNull, loading := False\<rparr>, Resolved))"

section \<open>Remote catalog gateway (services/productService.ts, listed in docs/TESTING.md)\<close>

text \<open>
  A JavaScript \<open>Set\<close> keeps its elements in insertion order, each once;
  \<open>Array.from\<close> lists them in that order. \<open>sort()\<close> without a comparator orders
  strings by their code units, the lexicographic order of character lists.
\<close>

definition Set_add :: "'a \<Rightarrow> 'a list \<Rightarrow> 'a list" where
  "Set_add x s = (if x \<in> set s then s else s @ [x])"

definition getDocs_Products :: "Firestore \<Rightarrow> Firestore \<times> (error + Product list)" where
  "getDocs_Products fs =
     (fs\<lparr>requests := requests fs @ [(''Products'', [])]\<rparr>,
      if unreachable fs then Inl FirestoreError else Inr (Products fs))"

definition getCategories :: "Firestore \<Rightarrow> string list \<Rightarrow> (Firestore \<times> string list) \<times> (error + string list)" where
  "getCategories fs out =
     (case getDocs_Products fs of
        (fs', Inl e) \<Rightarrow> ((fs', out @ [''Error fetching categories:'']), Inl e)
      | (fs', Inr querySnapshot) \<Rightarrow>
          (let categories =
                 foldl (\<lambda>categories data.
                          if category data \<noteq> [] then Set_add (category data) categories
                          else categories)
                   [] querySnapshot
           in ((fs', out), Inr (sort categories))))"

section \<open>Sequences of cart intents\<close>

text \<open>
  The presentation layer issues intents to the cart store one after another. \<open>run\<close>
  applies a list of them in order, each update run before the next intent is issued;
  the store carries on from the state an operation leaves, whatever the outcome of its
  promise.
\<close>

datatype intent =
    AddToCart Product number
  | RemoveFromCart string
  | UpdateQuantity string number
  | ClearCart

fun dispatch :: "intent \<Rightarrow> CartStore \<Rightarrow> CartStore \<times> outcome" where
  "dispatch (AddToCart p q) st = addToCart p q st"
| "dispatch (RemoveFromCart pid) st = removeFromCart pid st"
| "dispatch (UpdateQuantity pid q) st = updateQuantity pid q st"
| "dispatch ClearCart st = clearCart st"

fun run :: "intent list \<Rightarrow> CartStore \<Rightarrow> CartStore" where
  "run [] st = st"
| "run (i # rest) st = run rest (fst (dispatch i st))"

section \<open>Scheduling: updates that wait for the render\<close>

text \<open>
  \<open>setItems\<close> does not have to run the update it is given at once: React may keep it
  until the next render, and runs the updates it kept in the order of the calls. A
  mounted provider is its store and the intents whose updates are still waiting.
  \<open>issue\<close> is the call of an operation: the update is appended to those waiting and
  the promise resolves; \<open>clearCart\<close> also asks the storage at once to remove the key,
  and its promise is that of the removal. \<open>render\<close> runs the waiting updates, and it
  is then that the updaters of the mutations call \<open>saveCart\<close>. What \<open>updater\<close> runs
  for an intent is what the operation passed to \<open>setItems\<close>.
\<close>

record Provider =
  store :: CartStore
  pending :: "intent list"

fun updater :: "intent \<Rightarrow> CartStore \<Rightarrow> CartStore" where
  "updater (AddToCart p q) st = addToCart_updater p q st"
| "updater (RemoveFromCart pid) st = removeFromCart_updater pid st"
| "updater (UpdateQuantity pid q) st =
     (if q < 1 then removeFromCart_updater pid st else updateQuantity_updater pid q st)"
| "updater ClearCart st = st\<lparr>items := []\<rparr>"

fun issue :: "intent \<Rightarrow> Provider \<Rightarrow> Provider \<times> outcome" where
  "issue ClearCart pr =
     (let pr1 = pr\<lparr>pending := pending pr @ [ClearCart]\<rparr> in
      case AsyncStorage_removeItem CART_STORAGE_KEY (storage (store pr1)) of
        Inl e \<Rightarrow> (pr1, Rejected e)
      | Inr s' \<Rightarrow> (pr1\<lparr>store := (store pr1)\<lparr>storage := s'\<rparr>\<rparr>, Resolved))"
| "issue i pr = (pr\<lparr>pending := pending pr @ [i]\<rparr>, Resolved)"

definition render :: "Provider \<Rightarrow> Provider" where
  "render pr = \<lparr>store = foldl (\<lambda>st i. updater i st) (store pr) (pending pr), pending = []\<rparr>"

definition mount :: "AsyncStorage \<Rightarrow> Provider" where
  "mount s = \<lparr>store = loadCart (CartProvider s), pending = []\<rparr>"

text \<open>
  A restart discards the state in memory and the updates that wait: a fresh provider
  is mounted over the storage left behind and hydrates from it. A \<open>session\<close> is a
  sequence of calls, renders and restarts. \<open>snapshot_ok\<close> holds of a storage whose
  cart key is absent, or holds a string that is no JSON text, or holds the serialized
  form of a cart without two line items of one product.
\<close>

definition snapshot_ok :: "AsyncStorage \<Rightarrow> bool" where
  "snapshot_ok s =
     (case slots s CART_STORAGE_KEY of
        None \<Rightarrow> True
      | Some (PlainText t) \<Rightarrow> True
      | Some (JsonText j) \<Rightarrow>
          (case JSON_parse (JsonText j) of
             Inl e \<Rightarrow> False
           | Inr xs \<Rightarrow> JSON_stringify xs = JsonText j \<and> distinct (map productId xs)))"

datatype event = Issue intent | Render | Restart

fun step :: "event \<Rightarrow> Provider \<Rightarrow> Provider" where
  "step (Issue i) pr = fst (issue i pr)"
| "step Render pr = render pr"
| "step Restart pr = mount (storage (store pr))"

fun session :: "event list \<Rightarrow> Provider \<Rightarrow> Provider" where
  "session [] pr = pr"
| "session (e # rest) pr = session rest (step e pr)"

definition cart_ok :: "CartStore \<Rightarrow> bool" where
  "cart_ok st = (distinct (map productId (items st)) \<and> snapshot_ok (storage st))"

section \<open>Concrete stores and products for the examples\<close>

definition working_storage :: AsyncStorage where
  "working_storage = \<lparr>slots = Map.empty, faulty = False\<rparr>"

definition broken_storage :: AsyncStorage where
  "broken_storage = \<lparr>slots = Map.empty, faulty = True\<rparr>"

definition wrench :: Product where
  "wrench = \<lparr>id' = ''p1'', name = ''Wrench'', description = ''Combination wrench'',
              price = 9.99, imageURL = ''wrench.png'', stock = 12, category = ''Hand Tools'',
              createdAt = ''2024-01-01'', updatedAt = ''2024-01-01''\<rparr>"

definition drill :: Product where
  "drill = \<lparr>id' = ''p2'', name = ''Drill'', description = ''Cordless drill'',
             price = 10, imageURL = ''drill.png'', stock = 3, category = ''Power Tools'',
             createdAt = ''2024-01-02'', updatedAt = ''2024-01-02''\<rparr>"

text \<open>
  A backend with the profiles of an administrator \<open>u1\<close> and of a user \<open>u3\<close> whose
  document has no role field (there is no profile for \<open>u2\<close>), and a catalog of four
  products, one of them with the empty string as its category.
\<close>

definition backend :: Firestore where
  "backend = \<lparr>Users = [''u1'' \<mapsto> \<lparr>role = Some admin\<rparr>, ''u3'' \<mapsto> \<lparr>role = None\<rparr>],
               Products = [wrench, drill\<lparr>category := []\<rparr>, wrench\<lparr>id' := ''p4''\<rparr>,
                           drill\<lparr>id' := ''p5'', category := ''Abrasives''\<rparr>],
               unreachable = False, requests = []\<rparr>"

text \<open>
  The states of the examples with a storage that stops working, and with updates
  that are run after \<open>clearCart\<close> has asked for the removal: the wrench and the
  drill are added and the cart is cleared, all three before the next render.
\<close>

definition wrench_in_cart :: CartStore where
  "wrench_in_cart = fst (addToCart wrench 2 (CartProvider working_storage))"

definition storage_gone_bad :: CartStore where
  "storage_gone_bad = wrench_in_cart\<lparr>storage := (storage wrench_in_cart)\<lparr>faulty := True\<rparr>\<rparr>"

definition cleared_early :: "Provider \<times> outcome" where
  "cleared_early =
     issue ClearCart
       (fst (issue (AddToCart drill 1)
          (fst (issue (AddToCart wrench 2) (mount working_storage)))))"

section \<open>Rounding is exact on the integers up to \<open>2 ^ 53\<close>\<close>

lemma exponent_up_bounds:
  "1 \<le> x \<Longrightarrow> \<exists>k::nat. exponent_up x = int k \<and> 2 ^ k \<le> x \<and> x < 2 ^ (k + 1)"
proof (induction x rule: exponent_up.induct)
  case (1 x)
  show ?case
  proof (cases "2 \<le> x")
    case True
    then have "1 \<le> x / 2" by simp
    from "1.IH" [OF True this] obtain k :: nat
      where k: "exponent_up (x / 2) = int k" "2 ^ k \<le> x / 2" "x / 2 < 2 ^ (k + 1)"
      by blast
    have "exponent_up x = int (Suc k)"
      using True k(1) by (subst exponent_up.simps) simp
    moreover have "2 ^ Suc k \<le> x" using k(2) by simp
    moreover have "x < 2 ^ (Suc k + 1)" using k(3) by simp
    ultimately show ?thesis by blast
  next
    case False
    then have "exponent_up x = int 0"
      by (subst exponent_up.simps) simp
    with False "1.prems" show ?thesis
      by (intro exI [of _ 0]) simp
  qed
qed

lemma nearest_even_of_int: "nearest_even (of_int k) = k"
  by (simp add: nearest_even_def)

lemma binary64_exact_if:
  assumes "x \<noteq> 0"
    and "x / power_int 2 (max (exponent2 \<bar>x\<bar>) (- 1022) - 52) = of_int m"
  shows "binary64 x = x"
proof -
  let ?u = "power_int (2 :: rat) (max (exponent2 \<bar>x\<bar>) (- 1022) - 52)"
  have u: "?u \<noteq> 0" by simp
  have "binary64 x = of_int (nearest_even (x / ?u)) * ?u"
    using assms(1) by (simp add: binary64_def Let_def)
  also have "\<dots> = (x / ?u) * ?u"
    by (simp only: assms(2) nearest_even_of_int)
  also have "\<dots> = x" using u by simp
  finally show ?thesis .
qed

lemma binary64_of_int_exact:
  assumes "\<bar>n\<bar> \<le> 2 ^ 53"
  shows "binary64 (of_int n) = of_int n"
proof (cases "n = 0")
  case True
  then show ?thesis by (simp add: binary64_def)
next
  case False
  let ?x = "of_int n :: rat"
  have "1 \<le> \<bar>n\<bar>" using False by linarith
  then have "(1 :: rat) \<le> of_int \<bar>n\<bar>" by (simp only: of_int_1_le_iff)
  then have pos: "1 \<le> \<bar>?x\<bar>" by simp
  from exponent_up_bounds [OF pos] obtain k :: nat
    where k: "exponent_up \<bar>?x\<bar> = int k" "2 ^ k \<le> \<bar>?x\<bar>" "\<bar>?x\<bar> < 2 ^ (k + 1)"
    by blast
  have e: "max (exponent2 \<bar>?x\<bar>) (- 1022) = int k"
    using pos k(1) by (simp add: exponent2_def)
  have le: "\<bar>?x\<bar> \<le> 2 ^ 53"
  proof -
    have "\<bar>?x\<bar> = of_int \<bar>n\<bar>" by simp
    also have "\<dots> \<le> of_int (2 ^ 53)" using assms by (simp only: of_int_le_iff)
    finally show ?thesis by simp
  qed
  have "(2 :: rat) ^ k \<le> 2 ^ 53" using k(2) le by linarith
  then have k53: "k \<le> 53" by (rule power_le_imp_le_exp [rotated]) simp
  show ?thesis
  proof (cases "k \<le> 52")
    case True
    have "power_int (2 :: rat) (int k - 52) = 1 / 2 ^ (52 - k)"
    proof -
      have "int k - 52 = - int (52 - k)" using True by simp
      then show ?thesis by (simp add: power_int_minus_divide del: of_nat_diff)
    qed
    then have "?x / power_int 2 (int k - 52) = of_int (n * 2 ^ (52 - k))"
      by simp
    with e show ?thesis
      using False binary64_exact_if [of ?x "n * 2 ^ (52 - k)"] by simp
  next
    case False
    with k53 have k: "k = 53" by simp
    with \<open>2 ^ k \<le> \<bar>?x\<bar>\<close> le have "\<bar>?x\<bar> = 2 ^ 53" by simp
    then have "(of_int \<bar>n\<bar> :: rat) = of_int (2 ^ 53)" by simp
    then have "\<bar>n\<bar> = 2 ^ 53" by (simp only: of_int_eq_iff)
    then have "even \<bar>n\<bar>" by simp
    then have "even n" by simp
    then obtain m where m: "n = 2 * m" by (elim evenE)
    have "?x / power_int 2 (int k - 52) = of_int m"
      using k m by simp
    with e show ?thesis
      using \<open>n \<noteq> 0\<close> binary64_exact_if [of ?x m] by simp
  qed
qed

lemma binary64_of_nat_exact:
  assumes "n \<le> 2 ^ 53"
  shows "binary64 (of_nat n) = of_nat n"
proof -
  have "\<bar>int n\<bar> \<le> 2 ^ 53"
    using assms by (simp add: of_nat_le_iff [of n "2 ^ 53", where ?'a = int, symmetric] del: of_nat_le_iff)
  from binary64_of_int_exact [OF this] show ?thesis
    by simp
qed

lemma binary64_0 [simp]: "binary64 0 = 0"
  by (simp add: binary64_def)

lemma binary64_1 [simp]: "binary64 1 = 1"
  using binary64_of_int_exact [of 1] by simp

lemma binary64_numeral [simp]:
  "(numeral k :: int) \<le> 2 ^ 53 \<Longrightarrow> binary64 (numeral k) = numeral k"
  using binary64_of_int_exact [of "numeral k"] by simp

lemma binary64_neg_numeral [simp]:
  "(numeral k :: int) \<le> 2 ^ 53 \<Longrightarrow> binary64 (- numeral k) = - numeral k"
  using binary64_of_int_exact [of "- numeral k"] by simp

section \<open>The in-memory collection after each operation\<close>

lemma items_addToCart:
  "items (fst (addToCart p q st)) =
     (case find (\<lambda>item. productId item = id' p) (items st) of
        Some existingItem \<Rightarrow>
          map (\<lambda>item. if productId item = id' p
                       then item\<lparr>quantity := binary64 (quantity item + q)\<rparr> else item) (items st)
      | None \<Rightarrow> items st @ [\<lparr>productId = id' p, quantity = q, product = p\<rparr>])"
  by (simp add: addToCart_def addToCart_updater_def Let_def split: option.splits)

lemma items_removeFromCart:
  "items (fst (removeFromCart pid st)) = filter (\<lambda>item. productId item \<noteq> pid) (items st)"
  by (simp add: removeFromCart_def removeFromCart_updater_def Let_def)

lemma items_updateQuantity:
  "items (fst (updateQuantity pid q st)) =
     (if q < 1 then filter (\<lambda>item. productId item \<noteq> pid) (items st)
      else map (\<lambda>item. if productId item = pid then item\<lparr>quantity := q\<rparr> else item) (items st))"
  by (simp add: updateQuantity_def updateQuantity_updater_def Let_def items_removeFromCart)

lemma items_clearCart: "items (fst (clearCart st)) = []"
  by (simp add: clearCart_def Let_def split: sum.splits)

lemma productId_comp_quantity:
  "productId \<circ> (\<lambda>item. if P item then item\<lparr>quantity := g item\<rparr> else item) = productId"
  by (auto simp: fun_eq_iff)

lemma product_comp_quantity:
  "product \<circ> (\<lambda>item. if P item then item\<lparr>quantity := g item\<rparr> else item) = product"
  by (auto simp: fun_eq_iff)

section \<open>One line item per product\<close>

lemma distinct_addToCart:
  "distinct (map productId (items st)) \<Longrightarrow>
   distinct (map productId (items (fst (addToCart p q st))))"
  by (auto simp: items_addToCart productId_comp_quantity find_None_iff split: option.splits)

lemma distinct_removeFromCart:
  "distinct (map productId (items st)) \<Longrightarrow>
   distinct (map productId (items (fst (removeFromCart pid st))))"
  by (simp add: items_removeFromCart distinct_map_filter)

lemma distinct_updateQuantity:
  "distinct (map productId (items st)) \<Longrightarrow>
   distinct (map productId (items (fst (updateQuantity pid q st))))"
  by (simp add: items_updateQuantity productId_comp_quantity distinct_map_filter)

lemma distinct_dispatch:
  "distinct (map productId (items st)) \<Longrightarrow>
   distinct (map productId (items (fst (dispatch i st))))"
  by (cases i)
    (simp_all add: distinct_addToCart distinct_removeFromCart distinct_updateQuantity
      items_clearCart)

lemma distinct_run:
  "distinct (map productId (items st)) \<Longrightarrow> distinct (map productId (items (run ops st)))"
  by (induction ops arbitrary: st) (simp_all add: distinct_dispatch)

lemma distinct_count_le_1:
  "distinct (map f xs) \<Longrightarrow> length (filter (\<lambda>x. f x = k) xs) \<le> 1"
proof (induction xs)
  case Nil
  then show ?case by simp
next
  case (Cons x xs)
  show ?case
  proof (cases "f x = k")
    case True
    from Cons.prems have notin: "f x \<notin> f ` set xs"
      by simp
    have "f y \<noteq> k" if "y \<in> set xs" for y
    proof
      assume "f y = k"
      with True that have "f x \<in> f ` set xs"
        by (metis imageI)
      with notin show False ..
    qed
    then have "filter (\<lambda>x. f x = k) xs = []"
      by (simp add: filter_empty_conv)
    with True show ?thesis by simp
  next
    case False
    with Cons show ?thesis by simp
  qed
qed

lemma addToCart_same_single:
  assumes "items st = [\<lparr>productId = pid, quantity = q0, product = p0\<rparr>]" and "id' p = pid"
  shows "items (fst (addToCart p q st)) =
           [\<lparr>productId = pid, quantity = binary64 (q0 + q), product = p0\<rparr>]"
  using assms by (simp add: items_addToCart)

lemma addToCart_same_seq_single:
  assumes "items st = [\<lparr>productId = pid, quantity = q0, product = p0\<rparr>]"
    and "\<forall>c \<in> set calls. id' (fst c) = pid"
  shows "items (run (map (\<lambda>c. AddToCart (fst c) (snd c)) calls) st) =
           [\<lparr>productId = pid,
             quantity = foldl (\<lambda>sum q. binary64 (sum + q)) q0 (map snd calls),
             product = p0\<rparr>]"
  using assms
proof (induction calls arbitrary: st q0)
  case Nil
  then show ?case by simp
next
  case (Cons c calls)
  have "items (fst (addToCart (fst c) (snd c) st)) =
          [\<lparr>productId = pid, quantity = binary64 (q0 + snd c), product = p0\<rparr>]"
    using Cons.prems by (simp add: addToCart_same_single)
  from Cons.IH [OF this] Cons.prems(2) show ?case
    by simp
qed

lemma foldl_binary64_exact:
  assumes "\<forall>q \<in> set qs. \<exists>n::nat. q = of_nat n"
    and "of_nat m + sum_list qs \<le> 2 ^ 53"
  shows "foldl (\<lambda>sum q. binary64 (sum + q)) (of_nat m) qs = of_nat m + sum_list qs"
  using assms
proof (induction qs arbitrary: m)
  case Nil
  then show ?case by simp
next
  case (Cons q qs)
  from Cons.prems(1) obtain n :: nat where q: "q = of_nat n"
    by auto
  have rest: "0 \<le> sum_list qs"
  proof (rule sum_list_nonneg)
    fix x assume "x \<in> set qs"
    with Cons.prems(1) obtain k :: nat where "x = of_nat k" by auto
    then show "0 \<le> x" by simp
  qed
  have "(of_nat (m + n) :: rat) \<le> 2 ^ 53"
    using Cons.prems(2) rest q by simp
  then have "(of_nat (m + n) :: rat) \<le> of_nat (2 ^ 53)"
    by simp
  then have small: "m + n \<le> 2 ^ 53"
    by (simp only: of_nat_le_iff)
  have step: "binary64 (of_nat m + q) = of_nat (m + n)"
    using binary64_of_nat_exact [OF small] q by simp
  have "of_nat (m + n) + sum_list qs \<le> (2 ^ 53 :: rat)"
    using Cons.prems(2) q by simp
  with Cons.prems(1) have "foldl (\<lambda>sum q. binary64 (sum + q)) (of_nat (m + n)) qs
      = of_nat (m + n) + sum_list qs"
    by (intro Cons.IH) simp_all
  with step q show ?case
    by simp
qed

lemma sum_list_of_nat_ex:
  "\<forall>q \<in> set qs. \<exists>n::nat. q = of_nat n \<Longrightarrow> \<exists>N::nat. sum_list qs = (of_nat N :: rat)"
proof (induction qs)
  case Nil
  show ?case by (intro exI [of _ 0]) simp
next
  case (Cons q qs)
  then obtain n N :: nat where "q = of_nat n" and "sum_list qs = of_nat N"
    by auto
  then have "sum_list (q # qs) = of_nat (n + N)"
    by simp
  then show ?case ..
qed

lemma binary64_sum_of_nats:
  assumes "\<forall>q \<in> set qs. \<exists>n::nat. q = of_nat n" and "sum_list qs \<le> 2 ^ 53"
  shows "binary64 (sum_list qs) = sum_list qs"
proof -
  from sum_list_of_nat_ex [OF assms(1)] obtain N :: nat where N: "sum_list qs = of_nat N"
    by blast
  with assms(2) have "(of_nat N :: rat) \<le> of_nat (2 ^ 53)"
    by simp
  then have "N \<le> 2 ^ 53"
    by (simp only: of_nat_le_iff)
  from binary64_of_nat_exact [OF this] N show ?thesis
    by simp
qed

text \<open>
  The quantity \<open>2 ^ 53\<close> is added for the wrench, and then the quantity 1: the sum of
  the quantities passed is \<open>2 ^ 53 + 1\<close>, which is no double, and the quantity of the
  line item and \<open>totalItems\<close> are \<open>2 ^ 53\<close>.
\<close>

theorem cart_quantity_sum_is_rounded:
  "items (run [AddToCart wrench 9007199254740992, AddToCart wrench 1]
       (CartProvider working_storage))
     = [\<lparr>productId = ''p1'', quantity = 9007199254740992, product = wrench\<rparr>]
   \<and> totalItems (run [AddToCart wrench 9007199254740992, AddToCart wrench 1]
         (CartProvider working_storage)) = 9007199254740992
   \<and> sum_list [9007199254740992, 1 :: number] = 9007199254740993"
proof -
  have "binary64 9007199254740993 = 9007199254740992"
    by code_simp
  then show ?thesis
    by (simp add: items_addToCart CartProvider_def wrench_def totalItems_def)
qed

text \<open>
  Claim C1, amended. Start from a store whose cart is empty. After a non-empty sequence
  of \<open>addToCart\<close> calls, given as pairs of the product and the quantity passed, that all
  carry the product identifier \<open>pid\<close>, the cart is one line item for \<open>pid\<close>, with the
  product of the first call as its snapshot. When the quantities passed are
  non-negative integers whose sum is at most \<open>2 ^ 53\<close>, the quantity of that line item
  is their sum, and so are the sum of the quantities of the line items of \<open>pid\<close> and
  \<open>totalItems\<close>. After any list \<open>ops\<close> of add, remove, update and clear intents, no
  product identifier \<open>k\<close> has more than one line item. The storage may fail or not.
\<close>

theorem cart_one_line_item_per_product:
  assumes "items st = []"
  shows "(calls \<noteq> [] \<and> (\<forall>c \<in> set calls. id' (fst c) = pid) \<longrightarrow>
           (let st' = run (map (\<lambda>c. AddToCart (fst c) (snd c)) calls) st in
              map productId (items st') = [pid]
            \<and> map product (items st') = [fst (hd calls)]
            \<and> ((\<forall>c \<in> set calls. \<exists>n::nat. snd c = of_nat n)
                 \<and> sum_list (map snd calls) \<le> 2 ^ 53 \<longrightarrow>
                 items st' = [\<lparr>productId = pid, quantity = sum_list (map snd calls),
                                product = fst (hd calls)\<rparr>]
               \<and> sum_list (map quantity (filter (\<lambda>item. productId item = pid) (items st')))
                   = sum_list (map snd calls)
               \<and> totalItems st' = sum_list (map snd calls))))
       \<and> (\<forall>k. length (filter (\<lambda>item. productId item = k) (items (run ops st))) \<le> 1)"
proof (intro conjI impI allI)
  assume h: "calls \<noteq> [] \<and> (\<forall>c \<in> set calls. id' (fst c) = pid)"
  then obtain c rest where calls: "calls = c # rest"
    by (cases calls) auto
  let ?st' = "run (map (\<lambda>c. AddToCart (fst c) (snd c)) calls) st"
  let ?st1 = "fst (addToCart (fst c) (snd c) st)"
  have first: "items ?st1 = [\<lparr>productId = pid, quantity = snd c, product = fst c\<rparr>]"
    using assms h calls by (simp add: items_addToCart)
  have "\<forall>c \<in> set rest. id' (fst c) = pid"
    using h calls by simp
  from addToCart_same_seq_single [OF first this]
  have it: "items ?st' =
          [\<lparr>productId = pid,
            quantity = foldl (\<lambda>sum q. binary64 (sum + q)) (snd c) (map snd rest),
            product = fst (hd calls)\<rparr>]"
    by (simp add: calls)
  have exact: "items ?st' = [\<lparr>productId = pid, quantity = sum_list (map snd calls),
                  product = fst (hd calls)\<rparr>]
        \<and> sum_list (map quantity (filter (\<lambda>item. productId item = pid) (items ?st')))
            = sum_list (map snd calls)
        \<and> totalItems ?st' = sum_list (map snd calls)"
    if nat: "(\<forall>c \<in> set calls. \<exists>n::nat. snd c = of_nat n)
               \<and> sum_list (map snd calls) \<le> 2 ^ 53"
  proof -
    from nat calls obtain n :: nat where n: "snd c = of_nat n"
      by auto
    have qs: "\<forall>q \<in> set (map snd rest). \<exists>n::nat. q = of_nat n"
      using nat calls by auto
    have bound: "of_nat n + sum_list (map snd rest) \<le> (2 ^ 53 :: rat)"
      using nat calls n by simp
    have fold: "foldl (\<lambda>sum q. binary64 (sum + q)) (snd c) (map snd rest)
                  = sum_list (map snd calls)"
      using foldl_binary64_exact [OF qs bound] n calls by simp
    have "\<forall>q \<in> set (map snd calls). \<exists>n::nat. q = of_nat n"
      using nat by auto
    moreover have "sum_list (map snd calls) \<le> (2 ^ 53 :: rat)"
      using nat by simp
    ultimately have round: "binary64 (sum_list (map snd calls)) = sum_list (map snd calls)"
      by (rule binary64_sum_of_nats)
    show ?thesis
      using it fold round by (simp add: totalItems_def)
  qed
  show "let st' = ?st' in
              map productId (items st') = [pid]
            \<and> map product (items st') = [fst (hd calls)]
            \<and> ((\<forall>c \<in> set calls. \<exists>n::nat. snd c = of_nat n)
                 \<and> sum_list (map snd calls) \<le> 2 ^ 53 \<longrightarrow>
                 items st' = [\<lparr>productId = pid, quantity = sum_list (map snd calls),
                                product = fst (hd calls)\<rparr>]
               \<and> sum_list (map quantity (filter (\<lambda>item. productId item = pid) (items st')))
                   = sum_list (map snd calls)
               \<and> totalItems st' = sum_list (map snd calls))"
    unfolding Let_def using it exact by simp
next
  fix k
  from assms have "distinct (map productId (items st))"
    by simp
  then have "distinct (map productId (items (run ops st)))"
    by (rule distinct_run)
  then show "length (filter (\<lambda>item. productId item = k) (items (run ops st))) \<le> 1"
    by (rule distinct_count_le_1)
qed

theorem cart_one_line_item_per_product_witness:
  "items (CartProvider working_storage) = []
   \<and> [(wrench, 2), (wrench, 3)] \<noteq> []
   \<and> list_all (\<lambda>c. id' (fst c) = ''p1'') [(wrench, 2), (wrench, 3 :: number)]
   \<and> list_all (\<lambda>c. snd c = of_nat 2 \<or> snd c = of_nat 3) [(wrench, 2), (wrench, 3 :: number)]
   \<and> sum_list (map snd [(wrench, 2), (wrench, 3 :: number)]) \<le> 2 ^ 53
   \<and> items (run [AddToCart wrench 2, AddToCart wrench 3] (CartProvider working_storage))
       = [\<lparr>productId = ''p1'', quantity = 5, product = wrench\<rparr>]
   \<and> totalItems (run [AddToCart wrench 2, AddToCart wrench 3] (CartProvider working_storage)) = 5
   \<and> length (filter (\<lambda>item. productId item = ''p1'')
         (items (run [AddToCart wrench 2, AddToCart drill 1, AddToCart wrench 3,
                      UpdateQuantity ''p2'' 4, RemoveFromCart ''p3'', ClearCart,
                      AddToCart wrench 1]
                   (CartProvider working_storage)))) \<le> 1"
proof -
  have two: "\<exists>n::nat. (2 :: number) = of_nat n"
    by (rule exI [of _ 2]) simp
  have three: "\<exists>n::nat. (3 :: number) = of_nat n"
    by (rule exI [of _ 3]) simp
  from two three
    cart_one_line_item_per_product
      [of "CartProvider working_storage" "[(wrench, 2), (wrench, 3)]" "''p1''"
        "[AddToCart wrench 2, AddToCart drill 1, AddToCart wrench 3,
          UpdateQuantity ''p2'' 4, RemoveFromCart ''p3'', ClearCart, AddToCart wrench 1]"]
  show ?thesis
    by (simp add: CartProvider_def wrench_def Let_def)
qed

section \<open>Merging into an existing line item\<close>

lemma find_productId_unique:
  assumes "find (\<lambda>item. productId item = k) xs = Some e"
    and "distinct (map productId xs)" and "x \<in> set xs" and "productId x = k"
  shows "x = e"
proof -
  from assms(1) have "e \<in> set xs" and "productId e = k"
    by (auto simp: find_Some_iff)
  moreover from assms(2) have "inj_on productId (set xs)"
    by (simp add: distinct_map)
  ultimately show ?thesis
    using assms(3,4) by (auto dest: inj_onD)
qed

lemma find_map_quantity:
  "find (\<lambda>item. productId item = k)
     (map (\<lambda>item. if productId item = k then item\<lparr>quantity := g item\<rparr> else item) xs)
   = map_option (\<lambda>item. item\<lparr>quantity := g item\<rparr>) (find (\<lambda>item. productId item = k) xs)"
  by (induction xs) simp_all

text \<open>
  The line item of the product has the quantity \<open>2 ^ 53 + 2\<close>, a double, and the
  product is added again with the quantity 1: the sum \<open>2 ^ 53 + 3\<close> lies midway
  between two doubles, and the quantity becomes \<open>2 ^ 53 + 4\<close>, two more and not one.
\<close>

theorem addToCart_merge_rounds_quantity:
  "items (fst (addToCart wrench 9007199254740994 (CartProvider working_storage)))
     = [\<lparr>productId = ''p1'', quantity = 9007199254740994, product = wrench\<rparr>]
   \<and> items (fst (addToCart wrench 1
        (fst (addToCart wrench 9007199254740994 (CartProvider working_storage)))))
     = [\<lparr>productId = ''p1'', quantity = 9007199254740996, product = wrench\<rparr>]
   \<and> (9007199254740994 :: number) + 1 \<noteq> 9007199254740996"
proof -
  have "binary64 9007199254740995 = 9007199254740996"
    by code_simp
  then show ?thesis
    by (simp add: items_addToCart CartProvider_def wrench_def)
qed

text \<open>
  Claim C2, amended. When the cart already has a line item for the product passed to
  \<open>addToCart\<close>, the new cart has the product snapshots and the product identifiers of
  the old one, position by position, and the line items of other products are
  unchanged: nothing but the quantity of the line items of the product changes. The
  result does not depend on the product record passed in but for its identifier: any
  record with that identifier, whatever its price, gives the same cart and the same
  \<open>totalPrice\<close>, which is computed from the snapshots. The quantity becomes the double
  nearest to the old quantity plus \<open>q\<close>, as long as that is within the range of the
  doubles; in a cart with one line item per product, it is the old quantity plus \<open>q\<close>
  when both are integers and the sum has a magnitude of at most \<open>2 ^ 53\<close>.
\<close>

theorem addToCart_merge_changes_only_quantity:
  assumes "find (\<lambda>item. productId item = id' p) (items st) = Some existingItem"
  shows "(let st' = fst (addToCart p q st) in
            map product (items st') = map product (items st)
          \<and> map productId (items st') = map productId (items st)
          \<and> filter (\<lambda>item. productId item \<noteq> id' p) (items st')
              = filter (\<lambda>item. productId item \<noteq> id' p) (items st)
          \<and> (\<forall>p'. id' p' = id' p \<longrightarrow>
                 items (fst (addToCart p' q st)) = items st'
               \<and> totalPrice (fst (addToCart p' q st)) = totalPrice st')
          \<and> ((\<forall>item \<in> set (items st). productId item = id' p \<longrightarrow>
                  \<bar>quantity item + q\<bar> \<le> MAX_VALUE) \<longrightarrow>
               items st' = map (\<lambda>item. if productId item = id' p
                                        then item\<lparr>quantity := binary64 (quantity item + q)\<rparr>
                                        else item)
                             (items st))
          \<and> (\<forall>a b. distinct (map productId (items st)) \<and> quantity existingItem = of_int a
                 \<and> q = of_int b \<and> \<bar>a + b\<bar> \<le> 2 ^ 53 \<longrightarrow>
               items st' = map (\<lambda>item. if productId item = id' p
                                        then item\<lparr>quantity := quantity item + q\<rparr> else item)
                             (items st)))"
proof -
  let ?upd = "\<lambda>item. if productId item = id' p
                     then item\<lparr>quantity := binary64 (quantity item + q)\<rparr> else item"
  have it: "items (fst (addToCart p q st)) = map ?upd (items st)"
    using assms by (simp add: items_addToCart)
  have others: "filter (\<lambda>item. productId item \<noteq> id' p) (map ?upd xs)
                  = filter (\<lambda>item. productId item \<noteq> id' p) xs" for xs :: "CartItem list"
    by (induction xs) simp_all
  have same: "\<forall>p'. id' p' = id' p \<longrightarrow>
                 items (fst (addToCart p' q st)) = items (fst (addToCart p q st))
               \<and> totalPrice (fst (addToCart p' q st)) = totalPrice (fst (addToCart p q st))"
    using assms by (simp add: items_addToCart totalPrice_def)
  have frame: "map product (items (fst (addToCart p q st))) = map product (items st)
          \<and> map productId (items (fst (addToCart p q st))) = map productId (items st)
          \<and> filter (\<lambda>item. productId item \<noteq> id' p) (items (fst (addToCart p q st)))
              = filter (\<lambda>item. productId item \<noteq> id' p) (items st)"
    by (simp add: it others productId_comp_quantity product_comp_quantity)
  have exact: "items (fst (addToCart p q st))
                 = map (\<lambda>item. if productId item = id' p
                                then item\<lparr>quantity := quantity item + q\<rparr> else item) (items st)"
    if d: "distinct (map productId (items st))" and a: "quantity existingItem = of_int a"
      and b: "q = of_int b" and small: "\<bar>a + b\<bar> \<le> 2 ^ 53" for a b
  proof -
    have "binary64 (quantity existingItem + q) = quantity existingItem + q"
      using binary64_of_int_exact [OF small] a b by simp
    then have "?upd item = (if productId item = id' p
                            then item\<lparr>quantity := quantity item + q\<rparr> else item)"
      if "item \<in> set (items st)" for item
      using find_productId_unique [OF assms d that] by auto
    then show ?thesis
      unfolding it by (intro map_cong refl)
  qed
  from frame same it exact show ?thesis
    unfolding Let_def by blast
qed

text \<open>
  The drill is added at the price 10; the catalog price then becomes 20 and the
  product is added again, three more: the line item keeps the snapshot priced 10, its
  quantity is 5 and the total is 50.
\<close>

theorem addToCart_merge_changes_only_quantity_witness:
  "find (\<lambda>item. productId item = id' (drill\<lparr>price := 20\<rparr>))
      (items (fst (addToCart drill 2 (CartProvider working_storage))))
     = Some \<lparr>productId = ''p2'', quantity = 2, product = drill\<rparr>
   \<and> distinct (map productId (items (fst (addToCart drill 2 (CartProvider working_storage)))))
   \<and> (2 :: number) = of_int 2 \<and> (3 :: number) = of_int 3 \<and> \<bar>2 + 3 :: int\<bar> \<le> 2 ^ 53
   \<and> \<bar>2 + 3 :: number\<bar> \<le> MAX_VALUE
   \<and> totalPrice (fst (addToCart drill 2 (CartProvider working_storage))) = 20
   \<and> items (fst (addToCart (drill\<lparr>price := 20\<rparr>) 3
          (fst (addToCart drill 2 (CartProvider working_storage)))))
       = [\<lparr>productId = ''p2'', quantity = 5, product = drill\<rparr>]
   \<and> totalPrice (fst (addToCart (drill\<lparr>price := 20\<rparr>) 3
          (fst (addToCart drill 2 (CartProvider working_storage))))) = 50"
  using addToCart_merge_changes_only_quantity
      [of "drill\<lparr>price := 20\<rparr>" "fst (addToCart drill 2 (CartProvider working_storage))"
        "\<lparr>productId = ''p2'', quantity = 2, product = drill\<rparr>" 3]
  by (simp add: items_addToCart CartProvider_def drill_def Let_def totalPrice_def MAX_VALUE_def)

section \<open>Setting a quantity below one\<close>

text \<open>
  Claim C3. For every store, product identifier and quantity below 1,
  \<open>updateQuantity\<close> returns what \<open>removeFromCart\<close> returns: the same state (the
  in-memory collection, the storage with its persisted snapshot, the console) and the
  same outcome. The collection left is the old one without the line items of the
  product.
\<close>

theorem updateQuantity_below_one_is_removeFromCart:
  assumes "q < 1"
  shows "updateQuantity pid q st = removeFromCart pid st
       \<and> items (fst (updateQuantity pid q st))
           = filter (\<lambda>item. productId item \<noteq> pid) (items st)
       \<and> slots (storage (fst (updateQuantity pid q st)))
           = slots (storage (fst (removeFromCart pid st)))"
  using assms by (simp add: updateQuantity_def items_removeFromCart)

theorem updateQuantity_below_one_is_removeFromCart_witness:
  "(0 :: number) < 1 \<and> (-1 :: number) < 1
   \<and> updateQuantity ''p1'' 0 (fst (addToCart wrench 2 (CartProvider working_storage)))
       = removeFromCart ''p1'' (fst (addToCart wrench 2 (CartProvider working_storage)))
   \<and> updateQuantity ''p1'' (-1) (fst (addToCart wrench 2 (CartProvider working_storage)))
       = removeFromCart ''p1'' (fst (addToCart wrench 2 (CartProvider working_storage)))
   \<and> items (fst (updateQuantity ''p1'' 0 (fst (addToCart wrench 2 (CartProvider working_storage)))))
       = []"
  using updateQuantity_below_one_is_removeFromCart
      [of 0 "''p1''" "fst (addToCart wrench 2 (CartProvider working_storage))"]
    updateQuantity_below_one_is_removeFromCart
      [of "-1" "''p1''" "fst (addToCart wrench 2 (CartProvider working_storage))"]
  by (simp add: items_addToCart items_removeFromCart CartProvider_def wrench_def)

section \<open>Persistence\<close>

lemma product_of_json_to_json: "product_of_json (product_to_json p) = Some p"
  by (simp add: product_to_json_def)

lemma item_of_json_to_json: "item_of_json (item_to_json item) = Some item"
  by (simp add: item_to_json_def product_of_json_to_json)

lemma items_of_json_map: "items_of_json (map item_to_json xs) = Some xs"
  by (induction xs) (simp_all add: item_of_json_to_json)

lemma JSON_parse_stringify: "JSON_parse (JSON_stringify xs) = Inr xs"
  by (simp add: JSON_stringify_def items_of_json_map)

lemma truthy_stringify: "truthy (JSON_stringify xs)"
  by (simp add: JSON_stringify_def)

lemma saveCart_working:
  "\<not> faulty (storage st) \<Longrightarrow>
   saveCart cartItems st =
     st\<lparr>storage := (storage st)\<lparr>slots := (slots (storage st))
                        (CART_STORAGE_KEY \<mapsto> JSON_stringify cartItems)\<rparr>\<rparr>"
  by (simp add: saveCart_def AsyncStorage_setItem_def)

lemma saveCart_faulty:
  "faulty (storage st) \<Longrightarrow>
   saveCart cartItems st = st\<lparr>console := console st @ [''Error saving cart:'']\<rparr>"
  by (simp add: saveCart_def AsyncStorage_setItem_def)

lemma loadCart_hydrates:
  "\<not> faulty s \<Longrightarrow> slots s CART_STORAGE_KEY = Some (JSON_stringify xs) \<Longrightarrow>
   loadCart (CartProvider s) = \<lparr>items = xs, storage = s, console = []\<rparr>"
  by (simp add: loadCart_def CartProvider_def AsyncStorage_getItem_def JSON_parse_stringify
      truthy_stringify)

lemma loadCart_absent:
  "slots s CART_STORAGE_KEY = None \<Longrightarrow> items (loadCart (CartProvider s)) = []"
  by (simp add: loadCart_def CartProvider_def AsyncStorage_getItem_def)

text \<open>
  Claim C4. On a storage that accepts the write, \<open>saveCart\<close> leaves the serialized cart
  in the slot of the cart key, and a fresh provider over that storage, after its
  \<open>loadCart\<close>, holds a collection equal to the cart saved: the same line items in the
  same order, for a cart of any length, and nothing is logged.
\<close>

theorem persisted_cart_round_trip:
  assumes "\<not> faulty (storage st)"
  shows "slots (storage (saveCart cartItems st)) CART_STORAGE_KEY = Some (JSON_stringify cartItems)
       \<and> items (loadCart (CartProvider (storage (saveCart cartItems st)))) = cartItems
       \<and> console (loadCart (CartProvider (storage (saveCart cartItems st)))) = []"
proof -
  let ?s = "storage (saveCart cartItems st)"
  have s: "slots ?s CART_STORAGE_KEY = Some (JSON_stringify cartItems)" and f: "\<not> faulty ?s"
    using assms by (simp_all add: saveCart_working)
  from loadCart_hydrates [OF f s] s show ?thesis
    by simp
qed

theorem persisted_cart_round_trip_witness:
  "\<not> faulty (storage (CartProvider working_storage))
   \<and> items (loadCart (CartProvider (storage (saveCart
         [\<lparr>productId = ''p1'', quantity = 2, product = wrench\<rparr>,
          \<lparr>productId = ''p2'', quantity = 1, product = drill\<rparr>] (CartProvider working_storage)))))
       = [\<lparr>productId = ''p1'', quantity = 2, product = wrench\<rparr>,
          \<lparr>productId = ''p2'', quantity = 1, product = drill\<rparr>]"
  using persisted_cart_round_trip [of "CartProvider working_storage"
      "[\<lparr>productId = ''p1'', quantity = 2, product = wrench\<rparr>,
        \<lparr>productId = ''p2'', quantity = 1, product = drill\<rparr>]"]
  by (simp add: CartProvider_def working_storage_def)

section \<open>Clearing the cart\<close>

lemma render_issue_is_dispatch:
  assumes "pending pr = []"
  shows "store (render (fst (issue i pr))) = fst (dispatch i (store pr))
       \<and> snd (issue i pr) = snd (dispatch i (store pr))"
  using assms
  by (cases i)
    (simp_all add: render_def addToCart_def removeFromCart_def updateQuantity_def clearCart_def
      Let_def split: sum.splits)

lemma items_render_ClearCart:
  "items (store (render (fst (issue ClearCart pr)))) = []"
  by (simp add: render_def Let_def split: sum.splits)

lemma issue_ClearCart_resolved:
  "(snd (issue ClearCart pr) = Resolved) = (\<not> faulty (storage (store pr)))"
  by (simp add: Let_def AsyncStorage_removeItem_def)

lemma id'_wrench: "id' wrench = ''p1''"
  by (simp add: wrench_def)

lemma id'_drill: "id' drill = ''p2''"
  by (simp add: drill_def)

text \<open>
  Two runs in which the snapshot outlives \<open>clearCart\<close>. In the first the storage has
  stopped working: \<open>clearCart\<close> rejects, the snapshot with the wrench is still in the
  storage, and a provider mounted once the storage works again hydrates the wrench. In
  the second the storage works: the wrench and the drill are added and the cart is
  cleared before the next render; \<open>clearCart\<close> resolves, the render runs the updates
  of the two additions, which save the wrench and the drill after the removal, and a
  fresh provider hydrates both although the cart in memory is empty.
\<close>

theorem clearCart_snapshot_survives:
  "snd (clearCart storage_gone_bad) = Rejected StorageError
   \<and> slots (storage (fst (clearCart storage_gone_bad))) CART_STORAGE_KEY
       = Some (JSON_stringify [\<lparr>productId = ''p1'', quantity = 2, product = wrench\<rparr>])
   \<and> items (loadCart (CartProvider
        ((storage (fst (clearCart storage_gone_bad)))\<lparr>faulty := False\<rparr>)))
       = [\<lparr>productId = ''p1'', quantity = 2, product = wrench\<rparr>]
   \<and> snd cleared_early = Resolved
   \<and> items (store (render (fst cleared_early))) = []
   \<and> slots (storage (store (render (fst cleared_early)))) CART_STORAGE_KEY
       = Some (JSON_stringify [\<lparr>productId = ''p1'', quantity = 2, product = wrench\<rparr>,
                               \<lparr>productId = ''p2'', quantity = 1, product = drill\<rparr>])
   \<and> items (loadCart (CartProvider (storage (store (render (fst cleared_early))))))
       = [\<lparr>productId = ''p1'', quantity = 2, product = wrench\<rparr>,
          \<lparr>productId = ''p2'', quantity = 1, product = drill\<rparr>]"
proof -
  have bad: "storage_gone_bad =
      \<lparr>items = [\<lparr>productId = ''p1'', quantity = 2, product = wrench\<rparr>],
       storage = \<lparr>slots = [CART_STORAGE_KEY \<mapsto>
                    JSON_stringify [\<lparr>productId = ''p1'', quantity = 2, product = wrench\<rparr>]],
                  faulty = True\<rparr>,
       console = []\<rparr>"
    by (simp add: storage_gone_bad_def wrench_in_cart_def addToCart_def addToCart_updater_def
        Let_def CartProvider_def working_storage_def saveCart_working id'_wrench)
  have gone: "snd (clearCart storage_gone_bad) = Rejected StorageError
      \<and> slots (storage (fst (clearCart storage_gone_bad))) CART_STORAGE_KEY
          = Some (JSON_stringify [\<lparr>productId = ''p1'', quantity = 2, product = wrench\<rparr>])
      \<and> items (loadCart (CartProvider
           ((storage (fst (clearCart storage_gone_bad)))\<lparr>faulty := False\<rparr>)))
          = [\<lparr>productId = ''p1'', quantity = 2, product = wrench\<rparr>]"
    unfolding bad
    by (simp add: clearCart_def Let_def AsyncStorage_removeItem_def loadCart_hydrates)
  have early: "render (fst cleared_early) =
      \<lparr>store = \<lparr>items = [],
         storage = \<lparr>slots = [CART_STORAGE_KEY \<mapsto>
                      JSON_stringify [\<lparr>productId = ''p1'', quantity = 2, product = wrench\<rparr>,
                                      \<lparr>productId = ''p2'', quantity = 1, product = drill\<rparr>]],
                    faulty = False\<rparr>,
         console = []\<rparr>,
       pending = []\<rparr>"
    and resolved: "snd cleared_early = Resolved"
    by (simp_all add: cleared_early_def mount_def render_def Let_def loadCart_def CartProvider_def
        working_storage_def AsyncStorage_getItem_def AsyncStorage_removeItem_def
        AsyncStorage_setItem_def addToCart_updater_def saveCart_def id'_wrench id'_drill)
  from gone resolved show ?thesis
    unfolding early by (simp add: loadCart_hydrates)
qed

text \<open>
  Claim C5, amended. Once the update of \<open>clearCart\<close> has been rendered the collection
  is empty, so \<open>totalItems\<close> and \<open>totalPrice\<close> are 0, on every state and whatever was
  waiting. When the promise of \<open>clearCart\<close> resolves and no update of an earlier call
  was waiting, the slot of the cart key is gone from the storage (it does not hold the
  serialized empty cart), and a fresh provider over that storage hydrates an empty
  cart. The promise resolves unless the storage rejects the removal.
\<close>

theorem clearCart_empties_cart_and_storage:
  "(let pr' = render (fst (issue ClearCart pr)) in
      items (store pr') = [] \<and> totalItems (store pr') = 0 \<and> totalPrice (store pr') = 0
    \<and> (snd (issue ClearCart pr) = Resolved \<and> pending pr = [] \<longrightarrow>
          store pr' = fst (clearCart (store pr))
        \<and> slots (storage (store pr')) CART_STORAGE_KEY = None
        \<and> slots (storage (store pr')) CART_STORAGE_KEY \<noteq> Some (JSON_stringify [])
        \<and> items (loadCart (CartProvider (storage (store pr')))) = []))
   \<and> (snd (issue ClearCart pr) = Resolved) = (\<not> faulty (storage (store pr)))"
proof -
  let ?pr' = "render (fst (issue ClearCart pr))"
  have "items (store ?pr') = []"
    by (rule items_render_ClearCart)
  then have empty: "items (store ?pr') = [] \<and> totalItems (store ?pr') = 0
      \<and> totalPrice (store ?pr') = 0"
    by (simp add: totalItems_def totalPrice_def del: issue.simps)
  have resolves: "(snd (issue ClearCart pr) = Resolved) = (\<not> faulty (storage (store pr)))"
    by (rule issue_ClearCart_resolved)
  have removed: "store ?pr' = fst (clearCart (store pr))
      \<and> slots (storage (store ?pr')) CART_STORAGE_KEY = None
      \<and> slots (storage (store ?pr')) CART_STORAGE_KEY \<noteq> Some (JSON_stringify [])
      \<and> items (loadCart (CartProvider (storage (store ?pr')))) = []"
    if "snd (issue ClearCart pr) = Resolved \<and> pending pr = []"
  proof -
    from that resolves have w: "\<not> faulty (storage (store pr))" and p: "pending pr = []"
      by blast+
    have st: "store ?pr' = fst (clearCart (store pr))"
      using render_issue_is_dispatch [OF p, of ClearCart] by simp
    have gone: "slots (storage (fst (clearCart (store pr)))) CART_STORAGE_KEY = None"
      using w by (simp add: clearCart_def Let_def AsyncStorage_removeItem_def)
    from st gone show ?thesis
      by (simp add: loadCart_absent)
  qed
  from empty removed resolves show ?thesis
    unfolding Let_def by blast
qed

theorem clearCart_empties_cart_and_storage_witness:
  "pending (render (fst (issue (AddToCart wrench 2) (mount working_storage)))) = []
   \<and> slots (storage (store (render (fst (issue (AddToCart wrench 2) (mount working_storage))))))
        CART_STORAGE_KEY
     = Some (JSON_stringify [\<lparr>productId = ''p1'', quantity = 2, product = wrench\<rparr>])
   \<and> snd (issue ClearCart (render (fst (issue (AddToCart wrench 2) (mount working_storage)))))
     = Resolved
   \<and> totalItems (store (render (fst (issue ClearCart
        (render (fst (issue (AddToCart wrench 2) (mount working_storage)))))))) = 0
   \<and> totalPrice (store (render (fst (issue ClearCart
        (render (fst (issue (AddToCart wrench 2) (mount working_storage)))))))) = 0
   \<and> slots (storage (store (render (fst (issue ClearCart
        (render (fst (issue (AddToCart wrench 2) (mount working_storage)))))))))
        CART_STORAGE_KEY = None
   \<and> items (loadCart (CartProvider (storage (store (render (fst (issue ClearCart
        (render (fst (issue (AddToCart wrench 2) (mount working_storage))))))))))) = []"
proof -
  let ?pr = "render (fst (issue (AddToCart wrench 2) (mount working_storage)))"
  have one: "?pr =
      \<lparr>store = \<lparr>items = [\<lparr>productId = ''p1'', quantity = 2, product = wrench\<rparr>],
         storage = \<lparr>slots = [CART_STORAGE_KEY \<mapsto>
                      JSON_stringify [\<lparr>productId = ''p1'', quantity = 2, product = wrench\<rparr>]],
                    faulty = False\<rparr>,
         console = []\<rparr>,
       pending = []\<rparr>"
    by (simp add: mount_def render_def loadCart_def CartProvider_def working_storage_def
        AsyncStorage_getItem_def AsyncStorage_setItem_def addToCart_updater_def saveCart_def
        Let_def id'_wrench)
  have p: "pending ?pr = []"
    and slot: "slots (storage (store ?pr)) CART_STORAGE_KEY
      = Some (JSON_stringify [\<lparr>productId = ''p1'', quantity = 2, product = wrench\<rparr>])"
    and w: "\<not> faulty (storage (store ?pr))"
    unfolding one by simp_all
  from w have two: "snd (issue ClearCart ?pr) = Resolved"
    by (rule issue_ClearCart_resolved [THEN iffD2])
  from clearCart_empties_cart_and_storage [of ?pr] two p
  have rest: "totalItems (store (render (fst (issue ClearCart ?pr)))) = 0
      \<and> totalPrice (store (render (fst (issue ClearCart ?pr)))) = 0
      \<and> slots (storage (store (render (fst (issue ClearCart ?pr))))) CART_STORAGE_KEY = None
      \<and> items (loadCart (CartProvider (storage (store (render (fst (issue ClearCart ?pr)))))))
          = []"
    unfolding Let_def by blast
  from p slot two rest show ?thesis
    by blast
qed

section \<open>Failing persistence\<close>

text \<open>
  Claim C6. The promises of \<open>addToCart\<close>, \<open>removeFromCart\<close> and \<open>updateQuantity\<close>
  resolve on every input and every state, and the in-memory collection is updated as
  the operation prescribes. When the storage rejects the write, the error is logged
  once on the console, the storage is as it was, and the promise still resolves.
\<close>

theorem cart_mutations_never_reject:
  "snd (addToCart p q st) = Resolved
   \<and> snd (removeFromCart pid st) = Resolved
   \<and> snd (updateQuantity pid q st) = Resolved
   \<and> items (fst (addToCart p q st)) =
       (case find (\<lambda>item. productId item = id' p) (items st) of
          Some existingItem \<Rightarrow>
            map (\<lambda>item. if productId item = id' p
                         then item\<lparr>quantity := binary64 (quantity item + q)\<rparr> else item)
              (items st)
        | None \<Rightarrow> items st @ [\<lparr>productId = id' p, quantity = q, product = p\<rparr>])
   \<and> items (fst (removeFromCart pid st)) = filter (\<lambda>item. productId item \<noteq> pid) (items st)
   \<and> items (fst (updateQuantity pid q st)) =
       (if q < 1 then filter (\<lambda>item. productId item \<noteq> pid) (items st)
        else map (\<lambda>item. if productId item = pid then item\<lparr>quantity := q\<rparr> else item) (items st))
   \<and> (faulty (storage st) \<longrightarrow>
         console (fst (addToCart p q st)) = console st @ [''Error saving cart:'']
       \<and> console (fst (removeFromCart pid st)) = console st @ [''Error saving cart:'']
       \<and> console (fst (updateQuantity pid q st)) = console st @ [''Error saving cart:'']
       \<and> storage (fst (addToCart p q st)) = storage st
       \<and> storage (fst (removeFromCart pid st)) = storage st
       \<and> storage (fst (updateQuantity pid q st)) = storage st)"
proof (intro conjI impI)
  show "snd (addToCart p q st) = Resolved"
    by (simp add: addToCart_def)
  show rm: "snd (removeFromCart pid st) = Resolved"
    by (simp add: removeFromCart_def)
  show "snd (updateQuantity pid q st) = Resolved"
    by (simp add: updateQuantity_def rm)
next
  assume f: "faulty (storage st)"
  show "console (fst (addToCart p q st)) = console st @ [''Error saving cart:'']"
    using f by (simp add: addToCart_def addToCart_updater_def Let_def saveCart_faulty split: option.splits)
  show rc: "console (fst (removeFromCart pid st)) = console st @ [''Error saving cart:'']"
    using f by (simp add: removeFromCart_def removeFromCart_updater_def Let_def saveCart_faulty)
  show "console (fst (updateQuantity pid q st)) = console st @ [''Error saving cart:'']"
    using f by (simp add: updateQuantity_def updateQuantity_updater_def Let_def saveCart_faulty rc)
  show "storage (fst (addToCart p q st)) = storage st"
    using f by (simp add: addToCart_def addToCart_updater_def Let_def saveCart_faulty split: option.splits)
  show rs: "storage (fst (removeFromCart pid st)) = storage st"
    using f by (simp add: removeFromCart_def removeFromCart_updater_def Let_def saveCart_faulty)
  show "storage (fst (updateQuantity pid q st)) = storage st"
    using f by (simp add: updateQuantity_def updateQuantity_updater_def Let_def saveCart_faulty rs)
qed (simp_all only: items_addToCart items_removeFromCart items_updateQuantity)

theorem cart_mutations_never_reject_witness:
  "faulty (storage (CartProvider broken_storage))
   \<and> addToCart wrench 2 (CartProvider broken_storage)
       = (\<lparr>items = [\<lparr>productId = ''p1'', quantity = 2, product = wrench\<rparr>],
           storage = broken_storage, console = [''Error saving cart:'']\<rparr>, Resolved)
   \<and> snd (removeFromCart ''p1'' (CartProvider broken_storage)) = Resolved
   \<and> snd (updateQuantity ''p1'' 4 (CartProvider broken_storage)) = Resolved
   \<and> console (fst (updateQuantity ''p1'' 4 (CartProvider broken_storage)))
       = [''Error saving cart:'']"
  using cart_mutations_never_reject [of wrench 2 "CartProvider broken_storage" "''p1''"]
    cart_mutations_never_reject [of wrench 4 "CartProvider broken_storage" "''p1''"]
  by (simp add: CartProvider_def broken_storage_def wrench_def prod_eq_iff)

section \<open>A worked scenario\<close>

text \<open>
  Claim C7. On a fresh provider (an empty cart, over any storage), with \<open>p1\<close> any
  product whose identifier is \<open>p1\<close> and whose price is 9.99: adding two gives
  \<open>totalItems\<close> 2 and a total price of 19.98; adding three more leaves one line item
  of quantity 5, \<open>totalItems\<close> 5 and a total price of 49.95; \<open>updateQuantity\<close> to 1
  gives quantity 1 and a total price of 9.99; \<open>removeFromCart\<close> leaves the cart empty.
  This holds with the decimal numerals read as exact rationals and the prices summed
  without rounding (\<open>totalPrice_exact\<close>), and it holds in double precision, as the
  program computes: with the price the double nearest to 9.99, the three values of
  \<open>totalPrice\<close> are the doubles nearest to 19.98, 49.95 and 9.99. The quantities and
  \<open>totalItems\<close> are those of the program in both readings.
\<close>

theorem cart_scenario_totals:
  "(let p1 = p\<lparr>id' := ''p1'', price := 9.99\<rparr>;
        st1 = fst (addToCart p1 2 (CartProvider s));
        st2 = fst (addToCart p1 3 st1);
        st3 = fst (updateQuantity ''p1'' 1 st2);
        st4 = fst (removeFromCart ''p1'' st3)
    in items st1 = [\<lparr>productId = ''p1'', quantity = 2, product = p1\<rparr>]
     \<and> totalItems st1 = 2 \<and> totalPrice_exact st1 = 19.98
     \<and> items st2 = [\<lparr>productId = ''p1'', quantity = 5, product = p1\<rparr>]
     \<and> totalItems st2 = 5 \<and> totalPrice_exact st2 = 49.95
     \<and> items st3 = [\<lparr>productId = ''p1'', quantity = 1, product = p1\<rparr>]
     \<and> totalPrice_exact st3 = 9.99
     \<and> items st4 = [])
   \<and> (let d1 = p\<lparr>id' := ''p1'', price := binary64 9.99\<rparr>;
          st1 = fst (addToCart d1 2 (CartProvider s));
          st2 = fst (addToCart d1 3 st1);
          st3 = fst (updateQuantity ''p1'' 1 st2);
          st4 = fst (removeFromCart ''p1'' st3)
      in items st1 = [\<lparr>productId = ''p1'', quantity = 2, product = d1\<rparr>]
       \<and> totalItems st1 = 2 \<and> totalPrice st1 = binary64 19.98
       \<and> items st2 = [\<lparr>productId = ''p1'', quantity = 5, product = d1\<rparr>]
       \<and> totalItems st2 = 5 \<and> totalPrice st2 = binary64 49.95
       \<and> items st3 = [\<lparr>productId = ''p1'', quantity = 1, product = d1\<rparr>]
       \<and> totalPrice st3 = binary64 9.99
       \<and> items st4 = [])"
proof -
  have exact:
    "(let p1 = p\<lparr>id' := ''p1'', price := 9.99\<rparr>;
          st1 = fst (addToCart p1 2 (CartProvider s));
          st2 = fst (addToCart p1 3 st1);
          st3 = fst (updateQuantity ''p1'' 1 st2);
          st4 = fst (removeFromCart ''p1'' st3)
      in items st1 = [\<lparr>productId = ''p1'', quantity = 2, product = p1\<rparr>]
       \<and> totalItems st1 = 2 \<and> totalPrice_exact st1 = 19.98
       \<and> items st2 = [\<lparr>productId = ''p1'', quantity = 5, product = p1\<rparr>]
       \<and> totalItems st2 = 5 \<and> totalPrice_exact st2 = 49.95
       \<and> items st3 = [\<lparr>productId = ''p1'', quantity = 1, product = p1\<rparr>]
       \<and> totalPrice_exact st3 = 9.99
       \<and> items st4 = [])"
    by (simp add: Let_def items_addToCart items_updateQuantity items_removeFromCart
        totalItems_def totalPrice_exact_def CartProvider_def)
  have two: "binary64 (0 + binary64 (binary64 9.99 * 2)) = binary64 19.98"
    by code_simp
  have five: "binary64 (0 + binary64 (binary64 9.99 * 5)) = binary64 49.95"
    by code_simp
  have one: "binary64 (0 + binary64 (binary64 9.99 * 1)) = binary64 9.99"
    by code_simp
  have rounded:
    "(let d1 = p\<lparr>id' := ''p1'', price := binary64 9.99\<rparr>;
          st1 = fst (addToCart d1 2 (CartProvider s));
          st2 = fst (addToCart d1 3 st1);
          st3 = fst (updateQuantity ''p1'' 1 st2);
          st4 = fst (removeFromCart ''p1'' st3)
      in items st1 = [\<lparr>productId = ''p1'', quantity = 2, product = d1\<rparr>]
       \<and> totalItems st1 = 2 \<and> totalPrice st1 = binary64 19.98
       \<and> items st2 = [\<lparr>productId = ''p1'', quantity = 5, product = d1\<rparr>]
       \<and> totalItems st2 = 5 \<and> totalPrice st2 = binary64 49.95
       \<and> items st3 = [\<lparr>productId = ''p1'', quantity = 1, product = d1\<rparr>]
       \<and> totalPrice st3 = binary64 9.99
       \<and> items st4 = [])"
    using two five one
    by (simp add: Let_def items_addToCart items_updateQuantity items_removeFromCart
        totalItems_def totalPrice_def CartProvider_def)
  from exact rounded show ?thesis ..
qed

section \<open>Quantities are not validated\<close>

text \<open>
  The cart holds the drill with the quantity \<open>- 2 ^ 53\<close>, and the drill is added with
  the quantity \<open>- 1\<close>: the sum \<open>- 2 ^ 53 - 1\<close> is not a double, and the quantity of the
  line item is \<open>- 2 ^ 53\<close> as before, not the old quantity plus the argument.
\<close>

theorem addToCart_negative_quantity_is_rounded:
  "items (fst (addToCart drill (- 9007199254740992) (CartProvider working_storage)))
     = [\<lparr>productId = ''p2'', quantity = - 9007199254740992, product = drill\<rparr>]
   \<and> items (fst (addToCart drill (- 1)
        (fst (addToCart drill (- 9007199254740992) (CartProvider working_storage)))))
     = [\<lparr>productId = ''p2'', quantity = - 9007199254740992, product = drill\<rparr>]
   \<and> (- 9007199254740992 :: number) + (- 1) \<noteq> - 9007199254740992"
proof -
  have "binary64 (- 9007199254740993) = - 9007199254740992"
    by code_simp
  then show ?thesis
    by (simp add: items_addToCart CartProvider_def drill_def)
qed

text \<open>
  Claim C10, amended. \<open>addToCart\<close> uses the quantity \<open>q\<close> as it is, for every number
  \<open>q\<close>, so for every integer, zero and the negative ones included. Without a line
  item for the product, a line item with exactly the quantity \<open>q\<close> is appended; on an
  empty cart the result is one line item of quantity \<open>q\<close>, which may be zero or
  negative. With a line item for the product, the quantity of the matching line items
  becomes the double nearest to the old quantity plus \<open>q\<close>, as long as the sum is
  within the range of the doubles; the line item found then holds the old quantity
  plus \<open>q\<close> itself when both are integers and the sum has a magnitude of at most
  \<open>2 ^ 53\<close>, whatever its sign.
\<close>

theorem addToCart_quantity_unvalidated:
  "(find (\<lambda>item. productId item = id' p) (items st) = None \<longrightarrow>
      items (fst (addToCart p q st))
        = items st @ [\<lparr>productId = id' p, quantity = q, product = p\<rparr>])
   \<and> (items st = [] \<longrightarrow>
      items (fst (addToCart p q st)) = [\<lparr>productId = id' p, quantity = q, product = p\<rparr>])
   \<and> (find (\<lambda>item. productId item = id' p) (items st) \<noteq> None
       \<and> (\<forall>item \<in> set (items st). productId item = id' p \<longrightarrow>
             \<bar>quantity item + q\<bar> \<le> MAX_VALUE) \<longrightarrow>
      items (fst (addToCart p q st))
        = map (\<lambda>item. if productId item = id' p
                      then item\<lparr>quantity := binary64 (quantity item + q)\<rparr> else item)
            (items st))
   \<and> (\<forall>existingItem a b.
         find (\<lambda>item. productId item = id' p) (items st) = Some existingItem
         \<and> quantity existingItem = of_int a \<and> q = of_int b \<and> \<bar>a + b\<bar> \<le> 2 ^ 53 \<longrightarrow>
         find (\<lambda>item. productId item = id' p) (items (fst (addToCart p q st)))
           = Some (existingItem\<lparr>quantity := of_int (a + b)\<rparr>))"
proof (intro conjI impI allI)
  assume "find (\<lambda>item. productId item = id' p) (items st) = None"
  then show "items (fst (addToCart p q st))
      = items st @ [\<lparr>productId = id' p, quantity = q, product = p\<rparr>]"
    by (simp add: items_addToCart)
next
  assume "items st = []"
  then show "items (fst (addToCart p q st)) = [\<lparr>productId = id' p, quantity = q, product = p\<rparr>]"
    by (simp add: items_addToCart)
next
  assume "find (\<lambda>item. productId item = id' p) (items st) \<noteq> None
       \<and> (\<forall>item \<in> set (items st). productId item = id' p \<longrightarrow>
             \<bar>quantity item + q\<bar> \<le> MAX_VALUE)"
  then obtain e where "find (\<lambda>item. productId item = id' p) (items st) = Some e"
    by auto
  then show "items (fst (addToCart p q st))
        = map (\<lambda>item. if productId item = id' p
                      then item\<lparr>quantity := binary64 (quantity item + q)\<rparr> else item)
            (items st)"
    by (simp add: items_addToCart)
next
  fix existingItem a b
  assume h: "find (\<lambda>item. productId item = id' p) (items st) = Some existingItem
         \<and> quantity existingItem = of_int a \<and> q = of_int b \<and> \<bar>a + b\<bar> \<le> 2 ^ 53"
  then have "binary64 (quantity existingItem + q) = of_int (a + b)"
    using binary64_of_int_exact [of "a + b"] by simp
  with h show "find (\<lambda>item. productId item = id' p) (items (fst (addToCart p q st)))
           = Some (existingItem\<lparr>quantity := of_int (a + b)\<rparr>)"
    by (simp add: items_addToCart find_map_quantity)
qed

theorem addToCart_quantity_unvalidated_witness:
  "items (CartProvider working_storage) = []
   \<and> items (fst (addToCart wrench 0 (CartProvider working_storage)))
     = [\<lparr>productId = ''p1'', quantity = 0, product = wrench\<rparr>]
   \<and> items (fst (addToCart wrench (- 3) (CartProvider working_storage)))
     = [\<lparr>productId = ''p1'', quantity = - 3, product = wrench\<rparr>]
   \<and> find (\<lambda>item. productId item = id' wrench)
        (items (fst (addToCart wrench 2 (CartProvider working_storage))))
     = Some \<lparr>productId = ''p1'', quantity = 2, product = wrench\<rparr>
   \<and> (2 :: number) = of_int 2 \<and> (- 5 :: number) = of_int (- 5) \<and> \<bar>2 + (- 5) :: int\<bar> \<le> 2 ^ 53
   \<and> \<bar>2 + (- 5) :: number\<bar> \<le> MAX_VALUE
   \<and> items (fst (addToCart wrench (- 5)
        (fst (addToCart wrench 2 (CartProvider working_storage)))))
     = [\<lparr>productId = ''p1'', quantity = binary64 (2 + (- 5)), product = wrench\<rparr>]
   \<and> find (\<lambda>item. productId item = id' wrench)
        (items (fst (addToCart wrench (- 5)
           (fst (addToCart wrench 2 (CartProvider working_storage))))))
     = Some \<lparr>productId = ''p1'', quantity = - 3, product = wrench\<rparr>"
proof -
  let ?st = "fst (addToCart wrench 2 (CartProvider working_storage))"
  have e: "items (CartProvider working_storage) = []"
    by (simp add: CartProvider_def)
  have it: "items ?st = [\<lparr>productId = ''p1'', quantity = 2, product = wrench\<rparr>]"
    by (simp add: items_addToCart CartProvider_def id'_wrench)
  have f: "find (\<lambda>item. productId item = id' wrench) (items ?st)
     = Some \<lparr>productId = ''p1'', quantity = 2, product = wrench\<rparr>"
    by (simp add: it id'_wrench)
  have r: "\<bar>2 + (- 5) :: number\<bar> \<le> MAX_VALUE"
    by (simp add: MAX_VALUE_def)
  from addToCart_quantity_unvalidated [of wrench "CartProvider working_storage" 0] e
  have zero: "items (fst (addToCart wrench 0 (CartProvider working_storage)))
     = [\<lparr>productId = ''p1'', quantity = 0, product = wrench\<rparr>]"
    by (simp add: id'_wrench)
  from addToCart_quantity_unvalidated [of wrench "CartProvider working_storage" "- 3"] e
  have neg: "items (fst (addToCart wrench (- 3) (CartProvider working_storage)))
     = [\<lparr>productId = ''p1'', quantity = - 3, product = wrench\<rparr>]"
    by (simp add: id'_wrench)
  from addToCart_quantity_unvalidated [of wrench ?st "- 5"] f r it
  have merged: "items (fst (addToCart wrench (- 5) ?st))
     = [\<lparr>productId = ''p1'', quantity = binary64 (2 + (- 5)), product = wrench\<rparr>]"
    by (simp add: id'_wrench)
  have "find (\<lambda>item. productId item = id' wrench) (items (fst (addToCart wrench (- 5) ?st)))
     = Some (\<lparr>productId = ''p1'', quantity = 2, product = wrench\<rparr>\<lparr>quantity := of_int (2 + (- 5))\<rparr>)"
    using addToCart_quantity_unvalidated [of wrench ?st "- 5"] f
    by (elim conjE allE [of _ "\<lparr>productId = ''p1'', quantity = 2, product = wrench\<rparr>"]
        allE [of _ 2] allE [of _ "- 5"]) simp
  then have found: "find (\<lambda>item. productId item = id' wrench)
      (items (fst (addToCart wrench (- 5) ?st)))
     = Some \<lparr>productId = ''p1'', quantity = - 3, product = wrench\<rparr>"
    by simp
  from e zero neg f r merged found show ?thesis
    by simp
qed

section \<open>The role of the session\<close>

text \<open>
  Claim C8. The claim has the role remain none when the profile document of the
  identity is absent. The callback sets the role inside \<open>if (userDoc.exists())\<close>,
  which has no \<open>else\<close>: without a document the role is not touched, and it is the
  role of the identity notified before. The administrator \<open>u1\<close> is notified first,
  and the role becomes \<open>admin\<close>. The next notification carries the identity \<open>u2\<close>,
  which has no profile document: the session is that of \<open>u2\<close> and its role is still
  \<open>admin\<close>, not none. The branch for a notification without an identity does reset
  the role, from the same state.
\<close>

theorem onAuthStateChanged_keeps_stale_role:
  "Users backend ''u2'' = None
   \<and> userRole (fst (onAuthStateChanged (Some \<lparr>uid = ''u1''\<rparr>) (AuthProvider backend)))
       = RoleTag admin
   \<and> onAuthStateChanged (Some \<lparr>uid = ''u2''\<rparr>)
        (fst (onAuthStateChanged (Some \<lparr>uid = ''u1''\<rparr>) (AuthProvider backend)))
       = (\<lparr>user = Some \<lparr>uid = ''u2''\<rparr>, userRole = RoleTag admin, loading = False,
           db = backend\<lparr>requests := [(''Users'', ''u1''), (''Users'', ''u2'')]\<rparr>\<rparr>, Resolved)
   \<and> \<not> no_role (userRole (fst (onAuthStateChanged (Some \<lparr>uid = ''u2''\<rparr>)
        (fst (onAuthStateChanged (Some \<lparr>uid = ''u1''\<rparr>) (AuthProvider backend))))))
   \<and> userRole (fst (onAuthStateChanged None
        (fst (onAuthStateChanged (Some \<lparr>uid = ''u1''\<rparr>) (AuthProvider backend)))))
       = RoleNull"
  by (simp add: onAuthStateChanged_def AuthProvider_def backend_def getDoc_Users_def Let_def)

section \<open>The categories of the catalog\<close>

lemma set_Set_add: "set (Set_add x s) = insert x (set s)"
  by (auto simp: Set_add_def)

lemma distinct_Set_add: "distinct s \<Longrightarrow> distinct (Set_add x s)"
  by (simp add: Set_add_def)

lemma set_collect_categories:
  "set (foldl (\<lambda>categories data.
                 if category data \<noteq> [] then Set_add (category data) categories
                 else categories) acc docs)
     = set acc \<union> {c \<in> set (map category docs). c \<noteq> []}"
  by (induction docs arbitrary: acc) (auto simp: set_Set_add)

lemma distinct_collect_categories:
  "distinct acc \<Longrightarrow>
   distinct (foldl (\<lambda>categories data.
                 if category data \<noteq> [] then Set_add (category data) categories
                 else categories) acc docs)"
  by (induction docs arbitrary: acc) (simp_all add: distinct_Set_add)

text \<open>
  The catalog of \<open>backend\<close> has a product whose category is the empty string: the
  empty string is among the categories of the product documents and is not among the
  categories returned.
\<close>

theorem getCategories_drops_empty_category:
  "[] \<in> set (map category (Products backend))
   \<and> snd (getCategories backend []) = Inr [''Abrasives'', ''Hand Tools'']"
  by (simp add: getCategories_def getDocs_Products_def Let_def backend_def wrench_def drill_def
      Set_add_def)

text \<open>
  Claim C9, amended. When Firestore answers, \<open>getCategories\<close> returns a list whose
  elements are exactly the non-empty categories of the product documents, each once
  however many products carry it, in ascending order (strings compared by their
  characters, a proper prefix before the longer string).
\<close>

theorem getCategories_distinct_sorted:
  assumes "\<not> unreachable fs"
  shows "\<exists>cs. snd (getCategories fs out) = Inr cs
            \<and> set cs = {c \<in> set (map category (Products fs)). c \<noteq> []}
            \<and> distinct cs \<and> sorted cs"
  using assms
  by (simp add: getCategories_def getDocs_Products_def Let_def set_collect_categories
      distinct_collect_categories)

theorem getCategories_distinct_sorted_witness:
  "\<not> unreachable backend
   \<and> map category (Products backend) = [''Hand Tools'', [], ''Hand Tools'', ''Abrasives'']
   \<and> snd (getCategories backend []) = Inr [''Abrasives'', ''Hand Tools'']"
  using getCategories_distinct_sorted [of backend "[]"]
  by (simp add: getCategories_def getDocs_Products_def Let_def backend_def wrench_def drill_def
      Set_add_def)

section \<open>Further properties of the stores\<close>

lemma faulty_saveCart: "faulty (storage (saveCart xs st)) = faulty (storage st)"
  by (simp add: saveCart_def AsyncStorage_setItem_def)

lemma map_merge_id:
  "k \<notin> productId ` set xs \<Longrightarrow>
   map (\<lambda>item. if productId item = k then item\<lparr>quantity := g item\<rparr> else item) xs = xs"
  by (induction xs) auto

text \<open>
  \<open>clearCart\<close> awaits the removal outside any \<open>try\<close>: when the storage rejects it,
  the promise of \<open>clearCart\<close> rejects with that error, the collection in memory is
  already empty, and the storage keeps what it held.
\<close>

theorem clearCart_rejects_on_failed_removal:
  "faulty (storage st) \<longrightarrow> clearCart st = (st\<lparr>items := []\<rparr>, Rejected StorageError)"
  by (simp add: clearCart_def Let_def AsyncStorage_removeItem_def)

theorem clearCart_rejects_on_failed_removal_witness:
  "faulty (storage storage_gone_bad)
   \<and> clearCart storage_gone_bad
       = (\<lparr>items = [],
           storage = \<lparr>slots = [CART_STORAGE_KEY \<mapsto>
                        JSON_stringify [\<lparr>productId = ''p1'', quantity = 2, product = wrench\<rparr>]],
                      faulty = True\<rparr>,
           console = []\<rparr>,
          Rejected StorageError)"
  using clearCart_rejects_on_failed_removal [of storage_gone_bad]
  by (simp add: storage_gone_bad_def wrench_in_cart_def addToCart_def addToCart_updater_def
      Let_def saveCart_def AsyncStorage_setItem_def CartProvider_def working_storage_def
      id'_wrench)

lemma mirror_saved:
  assumes "\<not> faulty (storage st)"
  shows "items (loadCart (CartProvider (storage (saveCart xs st)))) = xs"
proof -
  let ?s = "storage (saveCart xs st)"
  have "slots ?s CART_STORAGE_KEY = Some (JSON_stringify xs)" and "\<not> faulty ?s"
    using assms by (simp_all add: saveCart_working)
  from loadCart_hydrates [OF this(2) this(1)] show ?thesis
    by simp
qed

lemma mirror_dispatch:
  assumes w: "\<not> faulty (storage st)"
  shows "items (loadCart (CartProvider (storage (fst (dispatch i st))))) = items (fst (dispatch i st))
       \<and> \<not> faulty (storage (fst (dispatch i st)))"
proof (cases i)
  case (AddToCart p q)
  with w show ?thesis
    by (simp add: addToCart_def addToCart_updater_def Let_def mirror_saved faulty_saveCart
        split: option.splits)
next
  case (RemoveFromCart pid)
  with w show ?thesis
    by (simp add: removeFromCart_def removeFromCart_updater_def Let_def mirror_saved
        faulty_saveCart)
next
  case (UpdateQuantity pid q)
  with w show ?thesis
    by (simp add: updateQuantity_def updateQuantity_updater_def removeFromCart_def
        removeFromCart_updater_def Let_def mirror_saved faulty_saveCart)
next
  case ClearCart
  with w show ?thesis
    by (simp add: clearCart_def Let_def AsyncStorage_removeItem_def loadCart_absent)
qed

text \<open>
  After any one intent, issued while no earlier update is waiting and rendered, on a
  storage that works, the persisted snapshot mirrors the collection in memory: a fresh
  provider over the storage left behind hydrates the very items the store holds. The
  storage still works afterwards.
\<close>

theorem persisted_mirror_after_intent:
  "\<not> faulty (storage (store pr)) \<and> pending pr = [] \<longrightarrow>
     (let pr' = render (fst (issue i pr)) in
        items (loadCart (CartProvider (storage (store pr')))) = items (store pr')
      \<and> \<not> faulty (storage (store pr')))"
proof (intro impI)
  assume h: "\<not> faulty (storage (store pr)) \<and> pending pr = []"
  then have "store (render (fst (issue i pr))) = fst (dispatch i (store pr))"
    using render_issue_is_dispatch [of pr i] by blast
  moreover from h have "items (loadCart (CartProvider (storage (fst (dispatch i (store pr))))))
        = items (fst (dispatch i (store pr)))
      \<and> \<not> faulty (storage (fst (dispatch i (store pr))))"
    using mirror_dispatch [of "store pr" i] by blast
  ultimately show "let pr' = render (fst (issue i pr)) in
        items (loadCart (CartProvider (storage (store pr')))) = items (store pr')
      \<and> \<not> faulty (storage (store pr'))"
    by (simp add: Let_def)
qed

theorem persisted_mirror_after_intent_witness:
  "\<not> faulty (storage (store (mount working_storage)))
   \<and> pending (mount working_storage) = []
   \<and> items (loadCart (CartProvider (storage (store
        (render (fst (issue (AddToCart wrench 2) (mount working_storage))))))))
     = [\<lparr>productId = ''p1'', quantity = 2, product = wrench\<rparr>]"
proof -
  have m: "mount working_storage
      = \<lparr>store = \<lparr>items = [], storage = working_storage, console = []\<rparr>, pending = []\<rparr>"
    by (simp add: mount_def loadCart_def CartProvider_def working_storage_def
        AsyncStorage_getItem_def)
  have w: "\<not> faulty (storage (store (mount working_storage)))"
    and p: "pending (mount working_storage) = []"
    unfolding m by (simp_all add: working_storage_def)
  have it: "items (store (render (fst (issue (AddToCart wrench 2) (mount working_storage)))))
      = [\<lparr>productId = ''p1'', quantity = 2, product = wrench\<rparr>]"
    unfolding m by (simp add: render_def addToCart_updater_def Let_def id'_wrench)
  from persisted_mirror_after_intent [of "mount working_storage" "AddToCart wrench 2"] w p
  have "items (loadCart (CartProvider (storage (store
        (render (fst (issue (AddToCart wrench 2) (mount working_storage))))))))
     = items (store (render (fst (issue (AddToCart wrench 2) (mount working_storage)))))"
    unfolding Let_def by blast
  with it w p show ?thesis
    by simp
qed

text \<open>
  \<open>loadCart\<close> on a fresh provider never fails. A storage that rejects the read leaves
  the cart empty and one line on the console, and so does a stored string that is no
  JSON text; an absent key and an empty string leave the cart empty and the console
  silent; what \<open>saveCart\<close> wrote is hydrated, and nothing is logged.
\<close>

theorem loadCart_swallows_failures:
  "(faulty s \<longrightarrow>
      loadCart (CartProvider s) = \<lparr>items = [], storage = s, console = [''Error loading cart:'']\<rparr>)
   \<and> (\<not> faulty s \<and> slots s CART_STORAGE_KEY = None \<longrightarrow>
      loadCart (CartProvider s) = \<lparr>items = [], storage = s, console = []\<rparr>)
   \<and> (\<not> faulty s \<and> slots s CART_STORAGE_KEY = Some (PlainText []) \<longrightarrow>
      loadCart (CartProvider s) = \<lparr>items = [], storage = s, console = []\<rparr>)
   \<and> (\<forall>t. \<not> faulty s \<and> slots s CART_STORAGE_KEY = Some (PlainText t) \<and> t \<noteq> [] \<longrightarrow>
      loadCart (CartProvider s) = \<lparr>items = [], storage = s, console = [''Error loading cart:'']\<rparr>)
   \<and> (\<forall>xs. \<not> faulty s \<and> slots s CART_STORAGE_KEY = Some (JSON_stringify xs) \<longrightarrow>
      loadCart (CartProvider s) = \<lparr>items = xs, storage = s, console = []\<rparr>)"
  by (simp add: loadCart_def CartProvider_def AsyncStorage_getItem_def JSON_parse_stringify
      truthy_stringify)

theorem loadCart_swallows_failures_witness:
  "faulty broken_storage
   \<and> loadCart (CartProvider broken_storage)
       = \<lparr>items = [], storage = broken_storage, console = [''Error loading cart:'']\<rparr>
   \<and> \<not> faulty working_storage \<and> slots working_storage CART_STORAGE_KEY = None
   \<and> loadCart (CartProvider working_storage)
       = \<lparr>items = [], storage = working_storage, console = []\<rparr>
   \<and> slots (storage wrench_in_cart) CART_STORAGE_KEY
       = Some (JSON_stringify [\<lparr>productId = ''p1'', quantity = 2, product = wrench\<rparr>])
   \<and> \<not> faulty (storage wrench_in_cart)
   \<and> items (loadCart (CartProvider (storage wrench_in_cart)))
       = [\<lparr>productId = ''p1'', quantity = 2, product = wrench\<rparr>]
   \<and> console (loadCart (CartProvider (storage wrench_in_cart))) = []"
proof -
  have b: "faulty broken_storage"
    by (simp add: broken_storage_def)
  have w: "\<not> faulty working_storage \<and> slots working_storage CART_STORAGE_KEY = None"
    by (simp add: working_storage_def)
  have s: "slots (storage wrench_in_cart) CART_STORAGE_KEY
       = Some (JSON_stringify [\<lparr>productId = ''p1'', quantity = 2, product = wrench\<rparr>])
     \<and> \<not> faulty (storage wrench_in_cart)"
    by (simp add: wrench_in_cart_def addToCart_def addToCart_updater_def Let_def saveCart_def
        AsyncStorage_setItem_def CartProvider_def working_storage_def id'_wrench)
  from loadCart_swallows_failures [of broken_storage] b
  have one: "loadCart (CartProvider broken_storage)
       = \<lparr>items = [], storage = broken_storage, console = [''Error loading cart:'']\<rparr>"
    by blast
  from loadCart_swallows_failures [of working_storage] w
  have two: "loadCart (CartProvider working_storage)
       = \<lparr>items = [], storage = working_storage, console = []\<rparr>"
    by blast
  from loadCart_swallows_failures [of "storage wrench_in_cart"] s
  have "loadCart (CartProvider (storage wrench_in_cart))
       = \<lparr>items = [\<lparr>productId = ''p1'', quantity = 2, product = wrench\<rparr>],
          storage = storage wrench_in_cart, console = []\<rparr>"
    by blast
  then have three: "items (loadCart (CartProvider (storage wrench_in_cart)))
       = [\<lparr>productId = ''p1'', quantity = 2, product = wrench\<rparr>]
     \<and> console (loadCart (CartProvider (storage wrench_in_cart))) = []"
    by simp
  from b w s one two three show ?thesis
    by blast
qed

text \<open>
  With a quantity of at least 1, \<open>updateQuantity\<close> sets the quantity of the line items
  of the product and changes nothing else; for a product without a line item,
  \<open>updateQuantity\<close> and \<open>removeFromCart\<close> leave the collection as it is.
\<close>

theorem updateQuantity_sets_quantity:
  "1 \<le> q \<longrightarrow>
     items (fst (updateQuantity pid q st))
       = map (\<lambda>item. if productId item = pid then item\<lparr>quantity := q\<rparr> else item) (items st)
   \<and> (pid \<notin> productId ` set (items st) \<longrightarrow> items (fst (updateQuantity pid q st)) = items st)
   \<and> (pid \<notin> productId ` set (items st) \<longrightarrow> items (fst (removeFromCart pid st)) = items st)"
  by (auto simp: items_updateQuantity items_removeFromCart map_merge_id filter_id_conv)

theorem updateQuantity_sets_quantity_witness:
  "(1 :: number) \<le> 4
   \<and> items (fst (updateQuantity ''p1'' 4
        (run [AddToCart wrench 2, AddToCart drill 1] (CartProvider working_storage))))
     = [\<lparr>productId = ''p1'', quantity = 4, product = wrench\<rparr>,
        \<lparr>productId = ''p2'', quantity = 1, product = drill\<rparr>]
   \<and> ''p3'' \<notin> productId ` set (items
        (run [AddToCart wrench 2, AddToCart drill 1] (CartProvider working_storage)))
   \<and> items (fst (updateQuantity ''p3'' 4
        (run [AddToCart wrench 2, AddToCart drill 1] (CartProvider working_storage))))
     = items (run [AddToCart wrench 2, AddToCart drill 1] (CartProvider working_storage))
   \<and> items (fst (removeFromCart ''p3''
        (run [AddToCart wrench 2, AddToCart drill 1] (CartProvider working_storage))))
     = items (run [AddToCart wrench 2, AddToCart drill 1] (CartProvider working_storage))"
  using updateQuantity_sets_quantity
      [of 4 "''p1''" "run [AddToCart wrench 2, AddToCart drill 1] (CartProvider working_storage)"]
    updateQuantity_sets_quantity
      [of 4 "''p3''" "run [AddToCart wrench 2, AddToCart drill 1] (CartProvider working_storage)"]
  by (simp add: items_addToCart CartProvider_def wrench_def drill_def)

text \<open>
  On a notification without an identity the role is set to \<open>null\<close> and no document is
  requested. With an identity, the profile document \<open>Users/uid\<close> is requested, and
  when Firestore answers with a document: a role field gives that role, one of the two
  tags, and a document without the field leaves no role (\<open>undefined\<close>).
\<close>

theorem onAuthStateChanged_role:
  "(let st' = fst (onAuthStateChanged u st) in
      (u = None \<longrightarrow>
         userRole st' = RoleNull \<and> requests (db st') = requests (db st))
    \<and> (\<forall>usr. u = Some usr \<longrightarrow>
         requests (db st') = requests (db st) @ [(''Users'', uid usr)]
       \<and> (\<not> unreachable (db st) \<longrightarrow>
            (\<forall>d r. Users (db st) (uid usr) = Some d \<and> role d = Some r \<longrightarrow>
               userRole st' = RoleTag r)
          \<and> (\<forall>d. Users (db st) (uid usr) = Some d \<and> role d = None \<longrightarrow>
               userRole st' = RoleUndefined \<and> no_role (userRole st')))))"
proof (cases u)
  case None
  then show ?thesis
    by (simp add: onAuthStateChanged_def Let_def)
next
  case (Some usr)
  show ?thesis
  proof (cases "unreachable (db st)")
    case True
    with Some show ?thesis
      by (simp add: onAuthStateChanged_def getDoc_Users_def Let_def)
  next
    case reachable: False
    show ?thesis
    proof (cases "Users (db st) (uid usr)")
      case None
      with Some reachable show ?thesis
        by (simp add: onAuthStateChanged_def getDoc_Users_def Let_def)
    next
      case (Some d)
      with \<open>u = Some usr\<close> reachable show ?thesis
        by (cases "role d") (simp_all add: onAuthStateChanged_def getDoc_Users_def Let_def)
    qed
  qed
qed

theorem onAuthStateChanged_role_witness:
  "userRole (fst (onAuthStateChanged None
       (fst (onAuthStateChanged (Some \<lparr>uid = ''u1''\<rparr>) (AuthProvider backend))))) = RoleNull
   \<and> requests (db (fst (onAuthStateChanged None (AuthProvider backend)))) = []
   \<and> \<not> unreachable (db (AuthProvider backend))
   \<and> Users (db (AuthProvider backend)) ''u1'' = Some \<lparr>role = Some admin\<rparr>
   \<and> userRole (fst (onAuthStateChanged (Some \<lparr>uid = ''u1''\<rparr>) (AuthProvider backend)))
       = RoleTag admin
   \<and> requests (db (fst (onAuthStateChanged (Some \<lparr>uid = ''u1''\<rparr>) (AuthProvider backend))))
       = [(''Users'', ''u1'')]
   \<and> Users (db (AuthProvider backend)) ''u3'' = Some \<lparr>role = None\<rparr>
   \<and> userRole (fst (onAuthStateChanged (Some \<lparr>uid = ''u3''\<rparr>) (AuthProvider backend)))
       = RoleUndefined"
  using onAuthStateChanged_role
      [of None "fst (onAuthStateChanged (Some \<lparr>uid = ''u1''\<rparr>) (AuthProvider backend))"]
    onAuthStateChanged_role [of None "AuthProvider backend"]
    onAuthStateChanged_role [of "Some \<lparr>uid = ''u1''\<rparr>" "AuthProvider backend"]
    onAuthStateChanged_role [of "Some \<lparr>uid = ''u3''\<rparr>" "AuthProvider backend"]
  by (simp add: Let_def AuthProvider_def backend_def)

text \<open>
  The callback awaits the profile outside any \<open>try\<close>: when Firestore rejects the read,
  the callback rejects after recording the identity, and neither the role nor
  \<open>loading\<close> is touched.
\<close>

theorem onAuthStateChanged_fetch_failure:
  "unreachable (db st) \<longrightarrow>
     onAuthStateChanged (Some usr) st
       = (st\<lparr>user := Some usr, db := (db st)\<lparr>requests := requests (db st) @ [(''Users'', uid usr)]\<rparr>\<rparr>,
          Rejected FirestoreError)"
  by (simp add: onAuthStateChanged_def getDoc_Users_def Let_def)

theorem onAuthStateChanged_fetch_failure_witness:
  "unreachable (db (AuthProvider (backend\<lparr>unreachable := True\<rparr>)))
   \<and> snd (onAuthStateChanged (Some \<lparr>uid = ''u1''\<rparr>)
        (AuthProvider (backend\<lparr>unreachable := True\<rparr>))) = Rejected FirestoreError
   \<and> userRole (fst (onAuthStateChanged (Some \<lparr>uid = ''u1''\<rparr>)
        (AuthProvider (backend\<lparr>unreachable := True\<rparr>)))) = RoleNull
   \<and> loading (fst (onAuthStateChanged (Some \<lparr>uid = ''u1''\<rparr>)
        (AuthProvider (backend\<lparr>unreachable := True\<rparr>))))"
  using onAuthStateChanged_fetch_failure [of "AuthProvider (backend\<lparr>unreachable := True\<rparr>)" "\<lparr>uid = ''u1''\<rparr>"]
  by (simp add: AuthProvider_def)

text \<open>
  When Firestore rejects the query, \<open>getCategories\<close> logs one line and rethrows the
  error.
\<close>

theorem getCategories_rethrows:
  "unreachable fs \<longrightarrow>
     getCategories fs out
       = ((fs\<lparr>requests := requests fs @ [(''Products'', [])]\<rparr>,
           out @ [''Error fetching categories:'']), Inl FirestoreError)"
  by (simp add: getCategories_def getDocs_Products_def)

theorem getCategories_rethrows_witness:
  "unreachable (backend\<lparr>unreachable := True\<rparr>)
   \<and> snd (getCategories (backend\<lparr>unreachable := True\<rparr>) []) = Inl FirestoreError
   \<and> snd (fst (getCategories (backend\<lparr>unreachable := True\<rparr>) []))
       = [''Error fetching categories:'']"
  using getCategories_rethrows [of "backend\<lparr>unreachable := True\<rparr>" "[]"]
  by simp

section \<open>The collection under scheduling\<close>

lemma updater_is_dispatch: "i \<noteq> ClearCart \<Longrightarrow> updater i st = fst (dispatch i st)"
  by (cases i) (simp_all add: addToCart_def removeFromCart_def updateQuantity_def)

lemma items_updater:
  "items st = items st' \<Longrightarrow> items (updater i st) = items (fst (dispatch i st'))"
  by (cases i)
    (simp_all add: addToCart_def addToCart_updater_def removeFromCart_def
      removeFromCart_updater_def updateQuantity_def updateQuantity_updater_def clearCart_def
      Let_def split: option.splits sum.splits)

lemma items_foldl_updater:
  "items st = items st' \<Longrightarrow>
   items (foldl (\<lambda>st i. updater i st) st ops) = items (run ops st')"
  by (induction ops arbitrary: st st') (simp_all add: items_updater)

lemma issue_appends:
  "pending (fst (issue i pr)) = pending pr @ [i]
   \<and> items (store (fst (issue i pr))) = items (store pr)"
  by (cases i) (simp_all add: Let_def split: sum.splits)

lemma session_issues:
  "pending (session (map Issue ops) pr) = pending pr @ ops
   \<and> items (store (session (map Issue ops) pr)) = items (store pr)"
proof (induction ops arbitrary: pr)
  case Nil
  show ?case by simp
next
  case (Cons i ops)
  from Cons [of "fst (issue i pr)"] issue_appends [of i pr] show ?case
    by (simp del: issue.simps)
qed

text \<open>
  The collection does not depend on when the updates are run. However many intents
  are issued before the next render, the items after that render are those left by
  the operations applied one after the other, each to the state the one before left:
  the collection held before the calls, and the updates that waited already, followed
  by the intents in the order of the calls.
\<close>

theorem items_after_render:
  "items (store (render (session (map Issue ops) pr)))
     = items (run (pending pr @ ops) (store pr))"
proof -
  have "items (store (render (session (map Issue ops) pr)))
      = items (foldl (\<lambda>st i. updater i st) (store (session (map Issue ops) pr))
          (pending pr @ ops))"
    by (simp add: render_def session_issues)
  also have "\<dots> = items (run (pending pr @ ops) (store pr))"
    by (rule items_foldl_updater) (simp add: session_issues)
  finally show ?thesis .
qed

lemma snapshot_ok_saveCart:
  "distinct (map productId xs) \<Longrightarrow> snapshot_ok (storage st) \<Longrightarrow>
   snapshot_ok (storage (saveCart xs st))"
  by (cases "faulty (storage st)")
    (simp_all add: saveCart_working saveCart_faulty snapshot_ok_def items_of_json_map
      JSON_stringify_def)

lemma cart_ok_saved:
  "distinct (map productId xs) \<Longrightarrow> snapshot_ok (storage st) \<Longrightarrow>
   cart_ok ((saveCart xs st)\<lparr>items := xs\<rparr>)"
  by (simp add: cart_ok_def snapshot_ok_saveCart)

lemma cart_ok_updater: "cart_ok st \<Longrightarrow> cart_ok (updater i st)"
proof (cases i)
  case (AddToCart p q)
  assume ok: "cart_ok st"
  then have d: "distinct (map productId (items (fst (addToCart p q st))))"
    by (simp add: cart_ok_def distinct_addToCart)
  from ok have s: "snapshot_ok (storage st)"
    by (simp add: cart_ok_def)
  show ?thesis
  proof (cases "find (\<lambda>item. productId item = id' p) (items st)")
    case None
    with d have "distinct (map productId
        (items st @ [\<lparr>productId = id' p, quantity = q, product = p\<rparr>]))"
      by (simp add: items_addToCart)
    from cart_ok_saved [OF this s] None AddToCart show ?thesis
      by (simp add: addToCart_updater_def Let_def)
  next
    case (Some e)
    with d have "distinct (map productId
        (map (\<lambda>item. if productId item = id' p
                      then item\<lparr>quantity := binary64 (quantity item + q)\<rparr> else item)
           (items st)))"
      by (simp add: items_addToCart)
    from cart_ok_saved [OF this s] Some AddToCart show ?thesis
      by (simp add: addToCart_updater_def Let_def)
  qed
next
  case (RemoveFromCart pid)
  assume ok: "cart_ok st"
  then have "distinct (map productId (filter (\<lambda>item. productId item \<noteq> pid) (items st)))"
    and "snapshot_ok (storage st)"
    by (simp_all add: cart_ok_def distinct_map_filter)
  from cart_ok_saved [OF this] RemoveFromCart show ?thesis
    by (simp add: removeFromCart_updater_def Let_def)
next
  case (UpdateQuantity pid q)
  assume ok: "cart_ok st"
  then have s: "snapshot_ok (storage st)"
    by (simp add: cart_ok_def)
  from ok have "distinct (map productId (filter (\<lambda>item. productId item \<noteq> pid) (items st)))"
    by (simp add: cart_ok_def distinct_map_filter)
  from cart_ok_saved [OF this s] have rem: "cart_ok (removeFromCart_updater pid st)"
    by (simp add: removeFromCart_updater_def Let_def)
  from ok have "distinct (map productId
      (map (\<lambda>item. if productId item = pid then item\<lparr>quantity := q\<rparr> else item) (items st)))"
    by (simp add: cart_ok_def productId_comp_quantity)
  from cart_ok_saved [OF this s] have upd: "cart_ok (updateQuantity_updater pid q st)"
    by (simp add: updateQuantity_updater_def Let_def)
  from rem upd UpdateQuantity show ?thesis
    by simp
next
  case ClearCart
  assume "cart_ok st"
  with ClearCart show ?thesis
    by (simp add: cart_ok_def)
qed

lemma cart_ok_foldl_updater:
  "cart_ok st \<Longrightarrow> cart_ok (foldl (\<lambda>st i. updater i st) st ops)"
  by (induction ops arbitrary: st) (simp_all add: cart_ok_updater)

lemma cart_ok_issue: "cart_ok (store pr) \<Longrightarrow> cart_ok (store (fst (issue i pr)))"
  by (cases i)
    (auto simp: Let_def cart_ok_def snapshot_ok_def AsyncStorage_removeItem_def
      split: sum.splits)

lemma cart_ok_mount: "snapshot_ok s \<Longrightarrow> cart_ok (store (mount s))"
  by (auto simp: mount_def cart_ok_def snapshot_ok_def loadCart_def CartProvider_def
      AsyncStorage_getItem_def split: option.splits sum.splits stored.splits)

lemma cart_ok_step: "cart_ok (store pr) \<Longrightarrow> cart_ok (store (step e pr))"
proof (cases e)
  case (Issue i)
  assume "cart_ok (store pr)"
  with Issue show ?thesis
    by (simp add: cart_ok_issue del: issue.simps)
next
  case Render
  assume "cart_ok (store pr)"
  with Render show ?thesis
    by (simp add: render_def cart_ok_foldl_updater)
next
  case Restart
  assume "cart_ok (store pr)"
  then have "snapshot_ok (storage (store pr))"
    by (simp add: cart_ok_def)
  with Restart show ?thesis
    by (simp add: cart_ok_mount)
qed

lemma cart_ok_session: "cart_ok (store pr) \<Longrightarrow> cart_ok (store (session evs pr))"
  by (induction evs arbitrary: pr) (simp_all add: cart_ok_step del: step.simps)

text \<open>
  The invariant survives scheduling and restarts. Call a storage sound when the cart
  key is absent, or holds a string that is no JSON text, or holds what \<open>saveCart\<close>
  writes for a cart with one line item per product. From a sound storage, after
  mounting a provider and any sequence of calls, renders and restarts (each restart a
  fresh provider hydrated from the storage left behind, the waiting updates lost), no
  product has more than one line item, and the storage is sound again.
\<close>

theorem one_line_item_per_product_across_restarts:
  "snapshot_ok s \<longrightarrow>
     (\<forall>k. length (filter (\<lambda>item. productId item = k)
            (items (store (session evs (mount s))))) \<le> 1)
   \<and> snapshot_ok (storage (store (session evs (mount s))))"
proof (intro impI)
  assume "snapshot_ok s"
  then have "cart_ok (store (session evs (mount s)))"
    by (intro cart_ok_session cart_ok_mount)
  then show "(\<forall>k. length (filter (\<lambda>item. productId item = k)
            (items (store (session evs (mount s))))) \<le> 1)
   \<and> snapshot_ok (storage (store (session evs (mount s))))"
    using distinct_count_le_1 [of productId "items (store (session evs (mount s)))"]
    by (simp add: cart_ok_def)
qed

theorem one_line_item_per_product_across_restarts_witness:
  "snapshot_ok working_storage
   \<and> items (store (session [Issue (AddToCart wrench 2), Render, Restart,
                             Issue (AddToCart wrench 3), Issue (AddToCart drill 1), Render,
                             Issue (AddToCart drill 4), Restart]
        (mount working_storage)))
     = [\<lparr>productId = ''p1'', quantity = 5, product = wrench\<rparr>,
        \<lparr>productId = ''p2'', quantity = 1, product = drill\<rparr>]"
  using one_line_item_per_product_across_restarts [of working_storage
      "[Issue (AddToCart wrench 2), Render, Restart,
        Issue (AddToCart wrench 3), Issue (AddToCart drill 1), Render,
        Issue (AddToCart drill 4), Restart]"]
  by (simp add: snapshot_ok_def working_storage_def mount_def render_def loadCart_def
      CartProvider_def AsyncStorage_getItem_def AsyncStorage_setItem_def addToCart_updater_def
      saveCart_def Let_def JSON_parse_stringify truthy_stringify id'_wrench id'_drill)

end
